theory Spec2Isabelle
  imports Main
begin

section \<open>Documents and the persisted store\<close>

text \<open>
  Object ids are strings in their canonical spelling, so that the source's comparisons
  of \<open>toString()\<close> results are equalities of ids. Dates are natural numbers (a clock
  reading handed to every operation as \<open>now\<close>), and the id of a document about to be
  created is handed in as \<open>newId\<close>. Every handler is a function from the store before
  the call to its answer and the store after it; calls of the store itself are taken to
  succeed (were one to fail, the handler's \<open>catch\<close> would answer 500 or an \<open>error\<close>
  event after the writes already made).
\<close>

type_synonym oid = string
type_synonym time = nat

text \<open>The raw \<open>content\<close> of a send request is an arbitrary JavaScript value.\<close>

datatype jsval =
    JUndefined
  | JNull
  | JBool bool
  | JNum int
  | JStr string
  | JObj "(string \<times> jsval) list"

record read_info =
  rb_user :: oid
  rb_readAt :: time

record message =
  m_id :: oid
  m_conversation :: oid
  m_sender :: oid
  m_type :: "string option"
  m_content :: "(string \<times> jsval) list"
  m_status :: "string option"
  m_readBy :: "read_info list"
  m_isDeleted :: bool
  m_deletedAt :: "time option"
  m_deletedBy :: "oid option"
  m_createdAt :: time

record participant =
  p_user :: oid
  p_role :: string
  p_joinedAt :: time
  p_lastReadMessage :: "oid option"

record admin =
  a_user :: oid
  a_role :: string
  a_assignedAt :: time

record unread =
  u_user :: oid
  u_count :: int

record conversation =
  c_id :: oid
  c_type :: string
  c_name :: "string option"
  c_description :: "string option"
  c_avatar :: "string option"
  c_participants :: "participant list"
  c_admins :: "admin list"
  c_allowInvites :: bool
  c_memberCount :: nat
  c_lastMessage :: "oid option"
  c_unreadCount :: "unread list"
  c_isDeleted :: bool
  c_deletedAt :: "time option"

record user =
  usr_id :: oid
  usr_status :: string
  usr_lastSeen :: time

text \<open>
  The three collections, each in its natural (insertion) order. A collection never holds
  two documents with one \<open>_id\<close>; \<open>wf_store\<close> states it.
\<close>

record store =
  messages :: "message list"
  conversations :: "conversation list"
  users :: "user list"

definition wf_store :: "store \<Rightarrow> bool" where
  "wf_store s =
     (distinct (map m_id (messages s)) \<and> distinct (map c_id (conversations s)))"

subsection \<open>Store primitives\<close>

text \<open>\<open>updateOne\<close>: the first document matching the filter is updated, no other.\<close>

fun updateOne :: "('a \<Rightarrow> bool) \<Rightarrow> ('a \<Rightarrow> 'a) \<Rightarrow> 'a list \<Rightarrow> 'a list" where
  "updateOne P f [] = []"
| "updateOne P f (x # xs) = (if P x then f x # xs else x # updateOne P f xs)"

text \<open>\<open>$addToSet\<close>: the element is appended unless an equal one is in the array.\<close>

definition addToSet :: "'a \<Rightarrow> 'a list \<Rightarrow> 'a list" where
  "addToSet x xs = (if x \<in> set xs then xs else xs @ [x])"

text \<open>
  \<open>findOne(...).sort({createdAt: -1})\<close>: a document of greatest \<open>createdAt\<close>; among
  equals the store's choice is not fixed by the source, the model takes the first.
\<close>

fun latest :: "message list \<Rightarrow> message option" where
  "latest [] = None"
| "latest (m # ms) =
     (case latest ms of
        None \<Rightarrow> Some m
      | Some m' \<Rightarrow> if m_createdAt m < m_createdAt m' then Some m' else Some m)"

definition hasRead :: "oid \<Rightarrow> message \<Rightarrow> bool" where
  "hasRead userId m = list_ex (\<lambda>r. rb_user r = userId) (m_readBy m)"

definition isParticipant :: "oid \<Rightarrow> conversation \<Rightarrow> bool" where
  "isParticipant userId c = list_ex (\<lambda>p. p_user p = userId) (c_participants c)"

definition markReadBy :: "oid \<Rightarrow> time \<Rightarrow> message \<Rightarrow> message" where
  "markReadBy userId now m =
     m\<lparr>m_readBy := addToSet \<lparr>rb_user = userId, rb_readAt = now\<rparr> (m_readBy m)\<rparr>"

text \<open>
  Modelled from the spec: the Message schema (models/message.models) is not among the
  sources. A fresh document carries the fields its constructor call passes, is not
  soft-deleted (data model: soft-delete flag, deleter and timestamp set on deletion), and
  is stamped with its creation time; \<open>readBy\<close> is given by the caller of this function.
\<close>

definition newMessage ::
  "oid \<Rightarrow> time \<Rightarrow> oid \<Rightarrow> oid \<Rightarrow> string option \<Rightarrow> (string \<times> jsval) list \<Rightarrow>
   string option \<Rightarrow> read_info list \<Rightarrow> message" where
  "newMessage newId now conversationId senderId ty content status readBy =
     \<lparr>m_id = newId, m_conversation = conversationId, m_sender = senderId, m_type = ty,
      m_content = content, m_status = status, m_readBy = readBy, m_isDeleted = False,
      m_deletedAt = None, m_deletedBy = None, m_createdAt = now\<rparr>"

section \<open>MessageController (REST)\<close>

datatype reply =
    Reply nat string
  | ReplyMessage nat message
  | ReplyConversation nat conversation
  | ReplyBatch nat string "nat option" "oid list"

text \<open>
  \<open>sendMessage\<close>: the content payload is built from the declared type, which defaults
  to \<open>text\<close> when the body has none.
\<close>

definition formattedContent_rest :: "string \<Rightarrow> jsval \<Rightarrow> (string \<times> jsval) list" where
  "formattedContent_rest ty content =
     (if ty = ''text'' then [(''text'', content)]
      else if ty = ''image'' \<or> ty = ''video'' \<or> ty = ''file'' then [(''media'', content)]
      else if ty = ''location'' then [(''location'', content)]
      else if ty = ''contact'' then [(''contact'', content)]
      else if ty = ''call'' then [(''call'', content)]
      else if ty = ''poll'' then [(''poll'', content)]
      else [])"

text \<open>
  The constructor call of \<open>sendMessage\<close> passes no \<open>readBy\<close>: the new document has the
  schema's default, the parameter \<open>dflt\<close> (an array path of the absent schema; the empty
  array unless the schema says otherwise).
\<close>

definition sendMessage ::
  "read_info list \<Rightarrow> oid \<Rightarrow> time \<Rightarrow> store \<Rightarrow> oid option \<Rightarrow> oid \<Rightarrow> jsval \<Rightarrow>
   string option \<Rightarrow> reply \<times> store" where
  "sendMessage dflt newId now s caller conversationId content type_in =
     (case caller of
        None \<Rightarrow> (Reply 401 ''Unauthorized'', s)
      | Some senderId \<Rightarrow>
          (case find (\<lambda>c. c_id c = conversationId \<and> isParticipant senderId c)
                  (conversations s) of
             None \<Rightarrow> (Reply 404 ''Conversation not found'', s)
           | Some conversation \<Rightarrow>
               (let ty = (case type_in of None \<Rightarrow> ''text'' | Some t \<Rightarrow> t);
                    message = newMessage newId now conversationId senderId (Some ty)
                                (formattedContent_rest ty content) None dflt;
                    s1 = s\<lparr>messages := messages s @ [message]\<rparr>;
                    s2 = s1\<lparr>conversations :=
                            updateOne (\<lambda>c. c_id c = c_id conversation)
                              (\<lambda>c. c\<lparr>c_lastMessage := Some newId\<rparr>) (conversations s1)\<rparr>
                in (ReplyMessage 201 message, s2))))"

text \<open>
  \<open>markAsRead\<close>: \<open>io\<close> says whether the application holds the socket server; the
  handler dereferences it unchecked after the update, so without it the reply is 500 and
  the update stays.
\<close>

definition markAsRead ::
  "bool \<Rightarrow> time \<Rightarrow> store \<Rightarrow> oid option \<Rightarrow> oid \<Rightarrow> reply \<times> store" where
  "markAsRead io now s caller messageId =
     (case caller of
        None \<Rightarrow> (Reply 401 ''Unauthorized'', s)
      | Some userId \<Rightarrow>
          (case find (\<lambda>m. m_id m = messageId) (messages s) of
             None \<Rightarrow> (Reply 404 ''Message not found'', s)
           | Some message \<Rightarrow>
               if hasRead userId message
               then (Reply 400 ''You have already read this message'', s)
               else
                 (let s1 = s\<lparr>messages :=
                             updateOne (\<lambda>m. m_id m = messageId) (markReadBy userId now)
                               (messages s)\<rparr>
                  in if io then (Reply 200 ''Message marked as read'', s1)
                     else (Reply 500 ''Error marking message as read'', s1))))"

definition deleteMessage ::
  "time \<Rightarrow> store \<Rightarrow> oid option \<Rightarrow> oid \<Rightarrow> reply \<times> store" where
  "deleteMessage now s caller messageId =
     (case caller of
        None \<Rightarrow> (Reply 401 ''Unauthorized'', s)
      | Some userId \<Rightarrow>
          (case find (\<lambda>m. m_id m = messageId) (messages s) of
             None \<Rightarrow> (Reply 404 ''Message not found'', s)
           | Some message \<Rightarrow>
               if m_sender message \<noteq> userId then (Reply 403 ''Not authorized'', s)
               else
                 (let s1 = s\<lparr>messages :=
                             updateOne (\<lambda>m. m_id m = messageId)
                               (\<lambda>m. m\<lparr>m_isDeleted := True, m_deletedAt := Some now,
                                      m_deletedBy := Some userId\<rparr>)
                               (messages s)\<rparr>;
                      s2 =
                        (case find (\<lambda>c. c_id c = m_conversation message) (conversations s1) of
                           None \<Rightarrow> s1
                         | Some conversation \<Rightarrow>
                             if c_lastMessage conversation = Some messageId
                             then
                               (let lastMessage =
                                      latest (filter (\<lambda>m. m_conversation m = m_conversation message
                                                          \<and> \<not> m_isDeleted m) (messages s1))
                                in s1\<lparr>conversations :=
                                        updateOne (\<lambda>c. c_id c = c_id conversation)
                                          (\<lambda>c. c\<lparr>c_lastMessage := map_option m_id lastMessage\<rparr>)
                                          (conversations s1)\<rparr>)
                             else s1)
                  in (Reply 200 ''Message deleted'', s2))))"

text \<open>
  \<open>markMultipleAsRead\<close>: \<open>messageIds\<close> is \<open>None\<close> when the body's value is not an
  array; an absent \<open>conversationId\<close> is the empty string (both are falsy). The positional
  operator \<open>$\<close> of the two conversation updates addresses the first array element that
  matches the query.
\<close>

definition toMark :: "store \<Rightarrow> oid list \<Rightarrow> oid \<Rightarrow> oid \<Rightarrow> message list" where
  "toMark s messageIds conversationId userId =
     filter (\<lambda>m. m_id m \<in> set messageIds \<and> m_conversation m = conversationId
                  \<and> \<not> hasRead userId m) (messages s)"

definition bulkWrite :: "oid \<Rightarrow> time \<Rightarrow> oid list \<Rightarrow> message list \<Rightarrow> message list" where
  "bulkWrite userId now ids ms =
     fold (\<lambda>i acc. updateOne (\<lambda>m. m_id m = i) (markReadBy userId now) acc) ids ms"

definition markMultipleAsRead ::
  "time \<Rightarrow> store \<Rightarrow> oid option \<Rightarrow> oid list option \<Rightarrow> oid \<Rightarrow> reply \<times> store" where
  "markMultipleAsRead now s caller messageIds_in conversationId =
     (case caller of
        None \<Rightarrow> (Reply 401 ''Unauthorized'', s)
      | Some userId \<Rightarrow>
          (case messageIds_in of
             None \<Rightarrow> (Reply 400 ''Invalid messageIds. Must be a non-empty array.'', s)
           | Some messageIds \<Rightarrow>
               if messageIds = []
               then (Reply 400 ''Invalid messageIds. Must be a non-empty array.'', s)
               else if conversationId = [] then (Reply 400 ''conversationId is required'', s)
               else
                 (case find (\<lambda>c. c_id c = conversationId \<and> isParticipant userId c)
                         (conversations s) of
                    None \<Rightarrow>
                      (Reply 404 ''Conversation not found or you are not a participant'', s)
                  | Some conversation \<Rightarrow>
                      (let msgs = toMark s messageIds conversationId userId
                       in if msgs = []
                          then (ReplyBatch 200 ''No new messages to mark as read'' None [], s)
                          else
                            (let updatedMessageIds = map m_id msgs;
                                 s1 = s\<lparr>messages :=
                                         bulkWrite userId now updatedMessageIds (messages s)\<rparr>;
                                 latestMessage =
                                   latest (filter (\<lambda>m. m_id m \<in> set updatedMessageIds)
                                             (messages s1));
                                 s2 =
                                   (case latestMessage of
                                      None \<Rightarrow> s1
                                    | Some l \<Rightarrow>
                                        s1\<lparr>conversations :=
                                             updateOne
                                               (\<lambda>c. c_id c = conversationId \<and> isParticipant userId c)
                                               (\<lambda>c. c\<lparr>c_participants :=
                                                        updateOne (\<lambda>p. p_user p = userId)
                                                          (\<lambda>p. p\<lparr>p_lastReadMessage := Some (m_id l)\<rparr>)
                                                          (c_participants c)\<rparr>)
                                               (conversations s1)\<rparr>);
                                 s3 = s2\<lparr>conversations :=
                                          updateOne
                                            (\<lambda>c. c_id c = conversationId
                                                  \<and> list_ex (\<lambda>e. u_user e = userId) (c_unreadCount c))
                                            (\<lambda>c. c\<lparr>c_unreadCount :=
                                                     updateOne (\<lambda>e. u_user e = userId)
                                                       (\<lambda>e. e\<lparr>u_count := 0\<rparr>)
                                                       (c_unreadCount c)\<rparr>)
                                            (conversations s2)\<rparr>
                             in (ReplyBatch 200 ''Messages marked as read successfully''
                                   (Some (length updatedMessageIds)) updatedMessageIds, s3))))))"

section \<open>ChatSocket (real-time handlers)\<close>

text \<open>
  \<open>connectedUsers\<close> is a map keyed by the user id; its value is one
  \<open>ConnectedUser\<close>.
\<close>

record connected_user =
  cu_userId :: oid
  cu_socketId :: string

type_synonym registry = "oid \<rightharpoonup> connected_user"

datatype target = ToSocket string | ToOthers string | ToRoom string | ToAll

datatype payload =
    PError string
  | PUsersOnline "(oid \<times> string) list"
  | PUserStatus oid string
  | PMessageNew message oid
  | PConversationUpdated "conversation option"
  | PMessageRead oid oid oid

type_synonym emit = "target \<times> string \<times> payload"

definition getOnlineUsersFromDB :: "store \<Rightarrow> (oid \<times> string) list" where
  "getOnlineUsersFromDB s =
     map (\<lambda>u. (usr_id u, ''online'')) (filter (\<lambda>u. usr_status u = ''online'') (users s))"

definition handleConnection ::
  "time \<Rightarrow> registry \<times> store \<Rightarrow> string \<Rightarrow> oid \<Rightarrow> emit list \<times> registry \<times> store" where
  "handleConnection now rs socketId userId =
     (let s1 = (snd rs)\<lparr>users :=
                  updateOne (\<lambda>u. usr_id u = userId)
                    (\<lambda>u. u\<lparr>usr_status := ''online'', usr_lastSeen := now\<rparr>) (users (snd rs))\<rparr>;
          reg1 = (fst rs)(userId \<mapsto> \<lparr>cu_userId = userId, cu_socketId = socketId\<rparr>)
      in ([(ToSocket socketId, ''users:online'', PUsersOnline (getOnlineUsersFromDB s1)),
           (ToOthers socketId, ''user:status'', PUserStatus userId ''online'')],
          reg1, s1))"

definition handleDisconnect ::
  "time \<Rightarrow> registry \<times> store \<Rightarrow> string \<Rightarrow> oid \<Rightarrow> emit list \<times> registry \<times> store" where
  "handleDisconnect now rs socketId userId =
     (let s1 = (snd rs)\<lparr>users :=
                  updateOne (\<lambda>u. usr_id u = userId)
                    (\<lambda>u. u\<lparr>usr_status := ''offline'', usr_lastSeen := now\<rparr>) (users (snd rs))\<rparr>;
          reg1 = (fst rs)(userId := None)
      in ([(ToAll, ''user:status'', PUserStatus userId ''offline'')], reg1, s1))"

text \<open>
  The registry's reads: the fan-out of \<open>handleSendMessage\<close> looks a participant up with
  \<open>connectedUsers.get\<close> and delivers to the socket it finds.
\<close>

definition isOnline :: "registry \<Rightarrow> oid \<Rightarrow> bool" where
  "isOnline reg userId = (reg userId \<noteq> None)"

definition sessionsFor :: "registry \<Rightarrow> oid \<Rightarrow> string list" where
  "sessionsFor reg userId = (case reg userId of None \<Rightarrow> [] | Some cu \<Rightarrow> [cu_socketId cu])"

text \<open>
  Reading a property of \<open>undefined\<close> or \<open>null\<close> throws; of any other value that has
  no such property it gives \<open>undefined\<close>.
\<close>

datatype exn = TypeError

fun getProp :: "jsval \<Rightarrow> string \<Rightarrow> exn + jsval" where
  "getProp JUndefined k = Inl TypeError"
| "getProp JNull k = Inl TypeError"
| "getProp (JObj kvs) k = Inr (case map_of kvs k of None \<Rightarrow> JUndefined | Some v \<Rightarrow> v)"
| "getProp (JBool b) k = Inr JUndefined"
| "getProp (JNum n) k = Inr JUndefined"
| "getProp (JStr x) k = Inr JUndefined"

definition formattedContent_socket ::
  "string option \<Rightarrow> jsval \<Rightarrow> exn + (string \<times> jsval) list" where
  "formattedContent_socket ty content =
     (if ty = Some ''text'' then Inr [(''text'', content)]
      else if ty = Some ''file'' \<or> ty = Some ''image'' \<or> ty = Some ''video''
      then (case getProp content ''media'' of
              Inl e \<Rightarrow> Inl e
            | Inr v \<Rightarrow> Inr [(''media'', v)])
      else if ty = Some ''location'' then Inr [(''location'', content)]
      else if ty = Some ''poll'' then Inr [(''poll'', content)]
      else if ty = Some ''contact'' then Inr [(''contact'', content)]
      else if ty = Some ''call'' then Inr [(''call'', content)]
      else Inr [])"

text \<open>
  The \<open>$inc\<close> with the array filter \<open>elem.user \<noteq> userId\<close>: every element of
  \<open>unreadCount\<close> of another user is incremented.
\<close>

definition incUnread :: "oid \<Rightarrow> unread list \<Rightarrow> unread list" where
  "incUnread userId es =
     map (\<lambda>e. if u_user e \<noteq> userId then e\<lparr>u_count := u_count e + 1\<rparr> else e) es"

text \<open>The \<open>$set\<close> with the array filter \<open>elem.user = userId\<close>.\<close>

definition resetUnread :: "oid \<Rightarrow> unread list \<Rightarrow> unread list" where
  "resetUnread userId es =
     map (\<lambda>e. if u_user e = userId then e\<lparr>u_count := 0\<rparr> else e) es"

definition fanOut :: "registry \<Rightarrow> oid \<Rightarrow> message \<Rightarrow> oid \<Rightarrow> conversation \<Rightarrow> emit list" where
  "fanOut reg userId message conversationId conversation =
     concat (map (\<lambda>p.
        if p_user p \<noteq> userId
        then (case reg (p_user p) of
                None \<Rightarrow> []
              | Some participantSocket \<Rightarrow>
                  [(ToSocket (cu_socketId participantSocket), ''message:new'',
                      PMessageNew message conversationId),
                   (ToSocket (cu_socketId participantSocket), ''conversation:updated'',
                      PConversationUpdated (Some conversation))])
        else []) (c_participants conversation))"

text \<open>
  \<open>handleSendMessage\<close>: the message is saved with an empty \<open>readBy\<close>, then the sender
  is added to it in the store (the document in hand, which the events carry, keeps the
  empty array). An exception before the save leaves the store as it was. In the fan-out
  every participant is taken to reference a stored user.
\<close>

definition handleSendMessage ::
  "oid \<Rightarrow> time \<Rightarrow> registry \<Rightarrow> store \<Rightarrow> string \<Rightarrow> oid \<Rightarrow> oid \<Rightarrow> jsval \<Rightarrow> string option \<Rightarrow>
   emit list \<times> store" where
  "handleSendMessage newId now reg s socketId userId conversationId content ty =
     (case formattedContent_socket ty content of
        Inl e \<Rightarrow> ([(ToSocket socketId, ''error'', PError ''Failed to send message'')], s)
      | Inr formattedContent \<Rightarrow>
          (let message = newMessage newId now conversationId userId ty formattedContent
                           (Some ''sent'') [];
               s1 = s\<lparr>messages := messages s @ [message]\<rparr>;
               s2 = s1\<lparr>messages :=
                       updateOne (\<lambda>m. m_id m = newId) (markReadBy userId now) (messages s1)\<rparr>;
               s3 = s2\<lparr>conversations :=
                       updateOne (\<lambda>c. c_id c = conversationId)
                         (\<lambda>c. c\<lparr>c_lastMessage := Some newId,
                                c_unreadCount := incUnread userId (c_unreadCount c)\<rparr>)
                         (conversations s2)\<rparr>;
               conversation = find (\<lambda>c. c_id c = conversationId) (conversations s3)
           in ((case conversation of
                  None \<Rightarrow> []
                | Some c \<Rightarrow> fanOut reg userId message conversationId c)
               @ [(ToSocket socketId, ''message:new'', PMessageNew message conversationId),
                  (ToSocket socketId, ''conversation:updated'',
                     PConversationUpdated conversation)],
               s3)))"

definition handleMessageRead ::
  "time \<Rightarrow> store \<Rightarrow> string \<Rightarrow> oid \<Rightarrow> oid \<Rightarrow> oid \<Rightarrow> emit list \<times> store" where
  "handleMessageRead now s socketId userId conversationId messageId =
     (case find (\<lambda>m. m_id m = messageId) (messages s) of
        None \<Rightarrow> ([(ToSocket socketId, ''error'', PError ''Message not found'')], s)
      | Some existingMessage \<Rightarrow>
          if hasRead userId existingMessage then ([], s)
          else
            (let s1 = s\<lparr>messages :=
                        updateOne (\<lambda>m. m_id m = messageId) (markReadBy userId now)
                          (messages s)\<rparr>;
                 s2 = s1\<lparr>conversations :=
                         updateOne (\<lambda>c. c_id c = conversationId)
                           (\<lambda>c. c\<lparr>c_unreadCount := resetUnread userId (c_unreadCount c)\<rparr>)
                           (conversations s1)\<rparr>
             in ([(ToRoom (''conversation:'' @ conversationId), ''message:read'',
                    PMessageRead messageId userId conversationId)], s2)))"

section \<open>ConversationController (REST)\<close>

definition hasRole :: "string list \<Rightarrow> participant option \<Rightarrow> bool" where
  "hasRole roles p = (case p of None \<Rightarrow> False | Some q \<Rightarrow> p_role q \<in> set roles)"

text \<open>\<open>UserModel.find({_id: {$in: ids}})\<close>: the user documents whose id is listed.\<close>

definition existingUsers :: "store \<Rightarrow> oid list \<Rightarrow> user list" where
  "existingUsers s ids = filter (\<lambda>u. usr_id u \<in> set ids) (users s)"

text \<open>
  \<open>createConversation\<close>. A name is falsy when absent or empty. What the absent
  Conversation schema stores in \<open>unreadCount\<close> of a new document is the parameter
  \<open>unreadInit\<close>; the settings written are constants but \<open>allowInvites\<close>.
\<close>

definition createConversation ::
  "(participant list \<Rightarrow> unread list) \<Rightarrow> oid \<Rightarrow> time \<Rightarrow> store \<Rightarrow> oid option \<Rightarrow> string \<Rightarrow>
   oid list \<Rightarrow> string option \<Rightarrow> string option \<Rightarrow> string option \<Rightarrow> reply \<times> store" where
  "createConversation unreadInit newId now s caller ty participants name description avatar =
     (case caller of
        None \<Rightarrow> (Reply 401 ''Unauthorized'', s)
      | Some creatorId \<Rightarrow>
          if ty \<notin> set [''direct'', ''group'', ''channel'', ''broadcast'']
          then (Reply 400 ''Invalid conversation type'', s)
          else if ty \<noteq> ''direct'' \<and> (name = None \<or> name = Some [])
          then (Reply 400 ''Name is required for group/channel/broadcast'', s)
          else if ty = ''direct'' \<and> length participants \<noteq> 1
          then (Reply 400 ''Direct conversation must have exactly 2 participants'', s)
          else if length (existingUsers s participants) \<noteq> length participants
          then (Reply 400 ''One or more participants do not exist'', s)
          else
            (let participantsWithRoles =
                   \<lparr>p_user = creatorId, p_role = ''owner'', p_joinedAt = now,
                    p_lastReadMessage = None\<rparr>
                   # map (\<lambda>userId. \<lparr>p_user = userId, p_role = ''member'', p_joinedAt = now,
                                    p_lastReadMessage = None\<rparr>) participants;
                 conversation =
                   \<lparr>c_id = newId, c_type = ty, c_name = name, c_description = description,
                    c_avatar = avatar, c_participants = participantsWithRoles,
                    c_admins =
                      (if ty \<noteq> ''direct''
                       then [\<lparr>a_user = creatorId, a_role = ''owner'', a_assignedAt = now\<rparr>]
                       else []),
                    c_allowInvites = (ty \<noteq> ''direct''),
                    c_memberCount = length participantsWithRoles,
                    c_lastMessage = None,
                    c_unreadCount = unreadInit participantsWithRoles,
                    c_isDeleted = False, c_deletedAt = None\<rparr>
             in (ReplyConversation 201 conversation,
                 s\<lparr>conversations := conversations s @ [conversation]\<rparr>)))"

text \<open>
  The member operations load the conversation the caller takes part in, change the
  document in hand and save it. The \<open>participants\<close> of a request body is taken to be
  an array of ids.
\<close>

definition findConversation :: "store \<Rightarrow> oid \<Rightarrow> oid \<Rightarrow> conversation option" where
  "findConversation s conversationId userId =
     find (\<lambda>c. c_id c = conversationId \<and> isParticipant userId c \<and> \<not> c_isDeleted c)
       (conversations s)"

definition save :: "conversation \<Rightarrow> store \<Rightarrow> store" where
  "save conversation s =
     s\<lparr>conversations :=
         updateOne (\<lambda>c. c_id c = c_id conversation) (\<lambda>c. conversation) (conversations s)\<rparr>"

definition addParticipants ::
  "time \<Rightarrow> store \<Rightarrow> oid option \<Rightarrow> oid \<Rightarrow> oid list \<Rightarrow> reply \<times> store" where
  "addParticipants now s caller conversationId participants =
     (case caller of
        None \<Rightarrow> (Reply 401 ''Unauthorized'', s)
      | Some userId \<Rightarrow>
          (case findConversation s conversationId userId of
             None \<Rightarrow> (Reply 404 ''Conversation not found'', s)
           | Some conversation \<Rightarrow>
               if c_type conversation = ''direct''
               then (Reply 400 ''Cannot add participants to direct conversation'', s)
               else if \<not> hasRole [''admin'', ''owner'']
                          (find (\<lambda>p. p_user p = userId) (c_participants conversation))
               then (Reply 403 ''Not authorized to add participants'', s)
               else if length (existingUsers s participants) \<noteq> length participants
               then (Reply 400 ''One or more participants do not exist'', s)
               else if filter (\<lambda>p. p_user p \<in> set participants) (c_participants conversation) \<noteq> []
               then (Reply 400 ''One or more participants already in conversation'', s)
               else
                 (let newParticipants =
                        map (\<lambda>u. \<lparr>p_user = u, p_role = ''member'', p_joinedAt = now,
                                   p_lastReadMessage = None\<rparr>) participants;
                      ps = c_participants conversation @ newParticipants;
                      conversation' = conversation\<lparr>c_participants := ps,
                                                   c_memberCount := length ps\<rparr>
                  in (ReplyConversation 200 conversation', save conversation' s))))"

definition removeParticipants ::
  "store \<Rightarrow> oid option \<Rightarrow> oid \<Rightarrow> oid list \<Rightarrow> reply \<times> store" where
  "removeParticipants s caller conversationId participants =
     (case caller of
        None \<Rightarrow> (Reply 401 ''Unauthorized'', s)
      | Some userId \<Rightarrow>
          (case findConversation s conversationId userId of
             None \<Rightarrow> (Reply 404 ''Conversation not found'', s)
           | Some conversation \<Rightarrow>
               if c_type conversation = ''direct''
               then (Reply 400 ''Cannot remove participants from direct conversation'', s)
               else if \<not> hasRole [''admin'', ''owner'']
                          (find (\<lambda>p. p_user p = userId) (c_participants conversation))
               then (Reply 403 ''Not authorized to remove participants'', s)
               else
                 (case find (\<lambda>p. p_role p = ''owner'' \<and> p_user p \<in> set participants)
                         (c_participants conversation) of
                    Some owner \<Rightarrow> (Reply 400 ''Cannot remove the owner from conversation'', s)
                  | None \<Rightarrow>
                      (let ps = filter (\<lambda>p. p_user p \<notin> set participants)
                                  (c_participants conversation);
                           conversation' =
                             conversation\<lparr>c_participants := ps, c_memberCount := length ps,
                                          c_admins := filter (\<lambda>a. a_user a \<notin> set participants)
                                                        (c_admins conversation)\<rparr>
                       in (ReplyConversation 200 conversation', save conversation' s)))))"

definition leaveConversation :: "store \<Rightarrow> oid option \<Rightarrow> oid \<Rightarrow> reply \<times> store" where
  "leaveConversation s caller conversationId =
     (case caller of
        None \<Rightarrow> (Reply 401 ''Unauthorized'', s)
      | Some userId \<Rightarrow>
          (case findConversation s conversationId userId of
             None \<Rightarrow> (Reply 404 ''Conversation not found'', s)
           | Some conversation \<Rightarrow>
               if c_type conversation = ''direct''
               then (Reply 400 ''Cannot leave direct conversation'', s)
               else if map_option p_role (find (\<lambda>p. p_user p = userId)
                                            (c_participants conversation)) = Some ''owner''
               then (Reply 400 ''Owner cannot leave the conversation. Please transfer ownership or delete the conversation instead.'', s)
               else
                 (let ps = filter (\<lambda>p. p_user p \<noteq> userId) (c_participants conversation);
                      conversation' =
                        conversation\<lparr>c_participants := ps, c_memberCount := length ps,
                                     c_admins := filter (\<lambda>a. a_user a \<noteq> userId)
                                                   (c_admins conversation)\<rparr>
                  in (Reply 200 ''Successfully left the conversation'', save conversation' s))))"

section \<open>Notions of the specification\<close>

text \<open>
  The payload field the specification pairs with each recognized content type
  (text, media, location, contact, call, poll); \<open>None\<close> for any other type.
\<close>

definition payloadField :: "string \<Rightarrow> string option" where
  "payloadField ty =
     (if ty = ''text'' then Some ''text''
      else if ty \<in> set [''image'', ''video'', ''file''] then Some ''media''
      else if ty \<in> set [''location'', ''contact'', ''call'', ''poll''] then Some ty
      else None)"

text \<open>The unread counter of a user: the count of the user's first \<open>unreadCount\<close> element.\<close>

definition unreadOf :: "conversation \<Rightarrow> oid \<Rightarrow> int option" where
  "unreadOf c userId = map_option u_count (find (\<lambda>e. u_user e = userId) (c_unreadCount c))"

text \<open>The read watermark of a user: \<open>lastReadMessage\<close> of the user's first participant element.\<close>

definition watermarkOf :: "conversation \<Rightarrow> oid \<Rightarrow> oid option" where
  "watermarkOf c userId =
     (case find (\<lambda>p. p_user p = userId) (c_participants c) of
        None \<Rightarrow> None
      | Some p \<Rightarrow> p_lastReadMessage p)"

text \<open>The messages of a conversation that are not soft-deleted.\<close>

definition remainingIn :: "store \<Rightarrow> oid \<Rightarrow> message list" where
  "remainingIn s conversationId =
     filter (\<lambda>x. m_conversation x = conversationId \<and> \<not> m_isDeleted x) (messages s)"

section \<open>A small store for concrete runs\<close>

definition alice_p :: participant where
  "alice_p = \<lparr>p_user = ''alice'', p_role = ''owner'', p_joinedAt = 0, p_lastReadMessage = None\<rparr>"

definition bob_p :: participant where
  "bob_p = \<lparr>p_user = ''bob'', p_role = ''member'', p_joinedAt = 0, p_lastReadMessage = None\<rparr>"

definition conv1 :: conversation where
  "conv1 = \<lparr>c_id = ''c1'', c_type = ''group'', c_name = Some ''team'', c_description = None,
            c_avatar = None, c_participants = [alice_p, bob_p],
            c_admins = [\<lparr>a_user = ''alice'', a_role = ''owner'', a_assignedAt = 0\<rparr>],
            c_allowInvites = True, c_memberCount = 2, c_lastMessage = Some ''m1'',
            c_unreadCount = [\<lparr>u_user = ''alice'', u_count = 0\<rparr>, \<lparr>u_user = ''bob'', u_count = 1\<rparr>],
            c_isDeleted = False, c_deletedAt = None\<rparr>"

definition conv2 :: conversation where
  "conv2 = \<lparr>c_id = ''c2'', c_type = ''direct'', c_name = None, c_description = None,
            c_avatar = None, c_participants = [alice_p, bob_p], c_admins = [],
            c_allowInvites = False, c_memberCount = 2, c_lastMessage = None,
            c_unreadCount = [], c_isDeleted = False, c_deletedAt = None\<rparr>"

definition msg1 :: message where
  "msg1 = \<lparr>m_id = ''m1'', m_conversation = ''c1'', m_sender = ''alice'', m_type = Some ''text'',
           m_content = [(''text'', JStr ''hello'')], m_status = Some ''sent'',
           m_readBy = [\<lparr>rb_user = ''alice'', rb_readAt = 1\<rparr>], m_isDeleted = False,
           m_deletedAt = None, m_deletedBy = None, m_createdAt = 1\<rparr>"

definition store_ex :: store where
  "store_ex = \<lparr>messages = [msg1], conversations = [conv1, conv2],
               users = [\<lparr>usr_id = ''alice'', usr_status = ''online'', usr_lastSeen = 0\<rparr>,
                        \<lparr>usr_id = ''bob'', usr_status = ''offline'', usr_lastSeen = 0\<rparr>,
                        \<lparr>usr_id = ''carol'', usr_status = ''offline'', usr_lastSeen = 0\<rparr>]\<rparr>"

text \<open>The direct conversation that \<open>alice\<close> opens with \<open>carol\<close> at time 5.\<close>

definition conv3 :: conversation where
  "conv3 = \<lparr>c_id = ''c3'', c_type = ''direct'', c_name = None, c_description = None,
            c_avatar = None,
            c_participants =
              [\<lparr>p_user = ''alice'', p_role = ''owner'', p_joinedAt = 5, p_lastReadMessage = None\<rparr>,
               \<lparr>p_user = ''carol'', p_role = ''member'', p_joinedAt = 5, p_lastReadMessage = None\<rparr>],
            c_admins = [], c_allowInvites = False, c_memberCount = 2, c_lastMessage = None,
            c_unreadCount = [], c_isDeleted = False, c_deletedAt = None\<rparr>"

text \<open>
  The registry and store after socket \<open>s1\<close> of \<open>bob\<close> connects at time 1, and
  after his second socket \<open>s2\<close> connects at time 2.
\<close>

definition one_session :: "registry \<times> store" where
  "one_session = snd (handleConnection 1 (Map.empty, store_ex) ''s1'' ''bob'')"

definition two_sessions :: "registry \<times> store" where
  "two_sessions = snd (handleConnection 2 one_session ''s2'' ''bob'')"

text \<open>An earlier message of \<open>bob\<close> in \<open>c1\<close>, and the store that holds both messages.\<close>

definition msg0 :: message where
  "msg0 = \<lparr>m_id = ''m0'', m_conversation = ''c1'', m_sender = ''bob'', m_type = Some ''text'',
           m_content = [(''text'', JStr ''hi'')], m_status = Some ''sent'',
           m_readBy = [\<lparr>rb_user = ''bob'', rb_readAt = 0\<rparr>, \<lparr>rb_user = ''alice'', rb_readAt = 1\<rparr>],
           m_isDeleted = False, m_deletedAt = None, m_deletedBy = None, m_createdAt = 0\<rparr>"

definition store_two :: store where
  "store_two = store_ex\<lparr>messages := [msg0, msg1]\<rparr>"

text \<open>
  The message that \<open>alice\<close> sends into \<open>c1\<close> at time 7 through the REST controller,
  with the empty array as the schema's default for \<open>readBy\<close>.
\<close>

definition msg2 :: message where
  "msg2 = \<lparr>m_id = ''m2'', m_conversation = ''c1'', m_sender = ''alice'', m_type = Some ''text'',
           m_content = [(''text'', JStr ''hi'')], m_status = None, m_readBy = [],
           m_isDeleted = False, m_deletedAt = None, m_deletedBy = None, m_createdAt = 7\<rparr>"

section \<open>Facts of the store primitives\<close>

lemmas ex_defs = store_ex_def conv1_def conv2_def msg1_def alice_p_def bob_p_def store_two_def msg0_def

lemma wf_store_ex: "wf_store store_ex"
  by (simp add: wf_store_def ex_defs)

lemma updateOne_length [simp]: "length (updateOne P f xs) = length xs"
  by (induction xs) auto

lemma find_updateOne:
  "(\<And>x. P x \<Longrightarrow> P (f x)) \<Longrightarrow> find P (updateOne P f xs) = map_option f (find P xs)"
  by (induction xs) auto

lemma find_id_unique:
  "distinct (map c_id cs) \<Longrightarrow> find (\<lambda>c. c_id c = i) cs = Some c \<Longrightarrow>
   find (\<lambda>c. c_id c = i \<and> Q c) cs = (if Q c then Some c else None)"
proof (induction cs)
  case Nil
  then show ?case by simp
next
  case (Cons a cs)
  show ?case
  proof (cases "c_id a = i")
    case True
    with Cons.prems have ac: "a = c" by simp
    from Cons.prems(1) True have "i \<notin> set (map c_id cs)" by simp
    then have "\<forall>x\<in>set cs. c_id x \<noteq> i" by auto
    then have "find (\<lambda>c. c_id c = i \<and> Q c) cs = None"
      by (auto simp: find_None_iff)
    with True ac show ?thesis by simp
  next
    case False
    with Cons show ?thesis by simp
  qed
qed

lemma findConversation_unique:
  assumes "wf_store s" and "find (\<lambda>c. c_id c = i) (conversations s) = Some c"
  shows "findConversation s i u = (if isParticipant u c \<and> \<not> c_isDeleted c then Some c else None)"
  using assms find_id_unique [of "conversations s" i c "\<lambda>c. isParticipant u c \<and> \<not> c_isDeleted c"]
  by (simp add: wf_store_def findConversation_def)

lemma updateOne_append_fresh:
  "\<forall>x\<in>set xs. \<not> P x \<Longrightarrow> P y \<Longrightarrow> updateOne P f (xs @ [y]) = xs @ [f y]"
  by (induction xs) auto

lemma markReadBy_unread:
  "\<not> hasRead userId m \<Longrightarrow>
   markReadBy userId now m = m\<lparr>m_readBy := m_readBy m @ [\<lparr>rb_user = userId, rb_readAt = now\<rparr>]\<rparr>"
  by (auto simp: markReadBy_def addToSet_def hasRead_def list_ex_iff)

lemma hasRead_markReadBy [simp]: "hasRead userId (markReadBy userId now m)"
  by (force simp: markReadBy_def addToSet_def hasRead_def list_ex_iff)

lemma m_id_markReadBy [simp]: "m_id (markReadBy userId now m) = m_id m"
  by (simp add: markReadBy_def)

lemma find_markReadBy:
  "find (\<lambda>m. m_id m = i) (updateOne (\<lambda>m. m_id m = i) (markReadBy userId now) ms)
   = map_option (markReadBy userId now) (find (\<lambda>m. m_id m = i) ms)"
  by (rule find_updateOne) simp

lemma latest_None [simp]: "latest ms = None \<longleftrightarrow> ms = []"
  by (induction ms) (auto split: option.splits)

lemma latest_Some:
  "latest ms = Some l \<Longrightarrow> l \<in> set ms \<and> (\<forall>m\<in>set ms. m_createdAt m \<le> m_createdAt l)"
proof (induction ms arbitrary: l)
  case Nil
  then show ?case by simp
next
  case (Cons a ms)
  show ?case
  proof (cases "latest ms")
    case None
    with Cons.prems show ?thesis by simp
  next
    case (Some m')
    with Cons.IH have ih: "m' \<in> set ms" "\<forall>m\<in>set ms. m_createdAt m \<le> m_createdAt m'"
      by auto
    from Cons.prems Some have "l = (if m_createdAt a < m_createdAt m' then m' else a)"
      by (simp split: if_splits)
    with ih show ?thesis by (auto simp: not_less intro: order_trans)
  qed
qed

lemma latest_nonempty:
  "ms \<noteq> [] \<Longrightarrow> \<exists>l\<in>set ms. latest ms = Some l \<and> (\<forall>m\<in>set ms. m_createdAt m \<le> m_createdAt l)"
proof -
  assume "ms \<noteq> []"
  then obtain l where "latest ms = Some l"
    by (cases "latest ms") auto
  with latest_Some [of ms l] show ?thesis by auto
qed

lemma updateOne_none: "\<forall>x\<in>set xs. \<not> P x \<Longrightarrow> updateOne P f xs = xs"
  by (induction xs) auto

lemma updateOne_keyed:
  assumes "distinct (map k xs)"
    and "\<forall>x\<in>set xs. k x = i \<and> \<not> Q x \<longrightarrow> f x = x"
  shows "updateOne (\<lambda>x. k x = i \<and> Q x) f xs = map (\<lambda>x. if k x = i then f x else x) xs"
  using assms
proof (induction xs)
  case Nil
  then show ?case by simp
next
  case (Cons a xs)
  show ?case
  proof (cases "k a = i")
    case True
    with Cons.prems(1) have "i \<notin> set (map k xs)" by simp
    then have no: "\<forall>x\<in>set xs. k x \<noteq> i" by auto
    then have rest: "map (\<lambda>x. if k x = i then f x else x) xs = xs"
      by (simp add: map_idI)
    from no have upd: "updateOne (\<lambda>x. k x = i \<and> Q x) f xs = xs"
      by (simp add: updateOne_none)
    from Cons.prems(2) True have "\<not> Q a \<Longrightarrow> f a = a" by simp
    with True rest upd show ?thesis by auto
  next
    case False
    with Cons show ?thesis by simp
  qed
qed

lemma find_key_unique:
  "distinct (map k xs) \<Longrightarrow> find (\<lambda>x. k x = i) xs = Some c \<Longrightarrow> x \<in> set xs \<Longrightarrow> k x = i \<Longrightarrow> x = c"
proof (induction xs)
  case Nil
  then show ?case by simp
next
  case (Cons a xs)
  show ?case
  proof (cases "k a = i")
    case True
    with Cons.prems(2) have "a = c" by simp
    from Cons.prems(1) True have "i \<notin> set (map k xs)" by simp
    then have "\<forall>y\<in>set xs. k y \<noteq> i" by auto
    with Cons.prems(3,4) \<open>a = c\<close> show ?thesis by auto
  next
    case False
    with Cons show ?thesis by auto
  qed
qed

lemma markReadBy_idem [simp]:
  "markReadBy userId now (markReadBy userId now m) = markReadBy userId now m"
  by (simp add: markReadBy_def addToSet_def)

lemma bulkWrite_map:
  "distinct (map m_id ms) \<Longrightarrow>
   bulkWrite userId now ids ms
     = map (\<lambda>m. if m_id m \<in> set ids then markReadBy userId now m else m) ms"
proof (induction ids arbitrary: ms)
  case Nil
  then show ?case by (simp add: bulkWrite_def)
next
  case (Cons i ids)
  let ?ms1 = "map (\<lambda>m. if m_id m = i then markReadBy userId now m else m) ms"
  have step: "updateOne (\<lambda>m. m_id m = i) (markReadBy userId now) ms = ?ms1"
    using updateOne_keyed [of m_id ms i "\<lambda>m. True" "markReadBy userId now"] Cons.prems
    by simp
  have "m_id \<circ> (\<lambda>m. if m_id m = i then markReadBy userId now m else m) = m_id"
    by (auto simp: fun_eq_iff)
  then have ids1: "map m_id ?ms1 = map m_id ms"
    by simp
  have d1: "distinct (map m_id ?ms1)"
    unfolding ids1 by (rule Cons.prems)
  have "bulkWrite userId now (i # ids) ms = bulkWrite userId now ids ?ms1"
    by (simp add: bulkWrite_def step)
  also have "\<dots> = map (\<lambda>m. if m_id m \<in> set ids then markReadBy userId now m else m) ?ms1"
    by (rule Cons.IH [OF d1])
  also have "\<dots> = map (\<lambda>m. if m_id m \<in> set (i # ids) then markReadBy userId now m else m) ms"
    by (auto simp: comp_def)
  finally show ?case .
qed

lemma latest_map:
  "(\<And>m. m_createdAt (f m) = m_createdAt m) \<Longrightarrow> latest (map f ms) = map_option f (latest ms)"
  by (induction ms) (auto split: option.splits)

lemma m_createdAt_markReadBy [simp]: "m_createdAt (markReadBy userId now m) = m_createdAt m"
  by (simp add: markReadBy_def)

lemma toMark_ids:
  assumes "distinct (map m_id (messages s))" and "m \<in> set (messages s)"
  shows "m_id m \<in> set (map m_id (toMark s messageIds conversationId userId))
         \<longleftrightarrow> m_id m \<in> set messageIds \<and> m_conversation m = conversationId \<and> \<not> hasRead userId m"
proof
  assume "m_id m \<in> set (map m_id (toMark s messageIds conversationId userId))"
  then obtain m' where m': "m' \<in> set (toMark s messageIds conversationId userId)" "m_id m' = m_id m"
    by auto
  then have "m' \<in> set (messages s)"
    by (simp add: toMark_def)
  with assms m'(2) have "m' = m"
    by (meson distinct_map inj_onD)
  with m'(1) show "m_id m \<in> set messageIds \<and> m_conversation m = conversationId \<and> \<not> hasRead userId m"
    by (simp add: toMark_def)
next
  assume "m_id m \<in> set messageIds \<and> m_conversation m = conversationId \<and> \<not> hasRead userId m"
  with assms(2) have "m \<in> set (toMark s messageIds conversationId userId)"
    by (simp add: toMark_def)
  then show "m_id m \<in> set (map m_id (toMark s messageIds conversationId userId))"
    by simp
qed

section \<open>Connection registry\<close>

lemma handleConnection_registry:
  "fst (snd (handleConnection now (reg, s) socketId userId))
     = reg(userId \<mapsto> \<lparr>cu_userId = userId, cu_socketId = socketId\<rparr>)"
  by (simp add: handleConnection_def Let_def)

text \<open>A disconnect removes the user's entry, whichever socket it names.\<close>

lemma handleDisconnect_registry:
  "fst (snd (handleDisconnect now (reg, s) socketId userId)) = reg(userId := None)"
  by (simp add: handleDisconnect_def Let_def)

text \<open>
  C6, as stated, fails: the registry does not keep several sessions of one identity.
  When \<open>bob\<close> connects a second socket the first is displaced, and when the first
  socket then disconnects \<open>bob\<close> is no longer online although the second is still
  connected.
\<close>

theorem registry_multi_session_counterexample:
  "sessionsFor (fst two_sessions) ''bob'' = [''s2'']
   \<and> \<not> isOnline (fst (snd (handleDisconnect 3 two_sessions ''s1'' ''bob''))) ''bob''"
  by (simp add: two_sessions_def one_session_def handleConnection_def handleDisconnect_def
        sessionsFor_def isOnline_def Let_def)

text \<open>
  C6, amended: the registry holds at most one session per identity. Connecting a socket
  of a user records it as the user's only session (replacing the one recorded before) and
  leaves every other user's sessions as they were; when the recorded socket of a user
  disconnects, the user has no session left and every other user's sessions are as they
  were; a user is online exactly when a session is recorded for it.
\<close>

theorem registry_single_session:
  "sessionsFor (fst (snd (handleConnection now (reg, s) socketId userId))) v
     = (if v = userId then [socketId] else sessionsFor reg v)
   \<and> (sessionsFor reg userId = [socketId] \<longrightarrow>
        sessionsFor (fst (snd (handleDisconnect now (reg, s) socketId userId))) v
          = (if v = userId then [] else sessionsFor reg v))
   \<and> isOnline reg v = (sessionsFor reg v \<noteq> [])
   \<and> length (sessionsFor reg v) \<le> 1"
  by (simp add: handleConnection_def handleDisconnect_def sessionsFor_def isOnline_def Let_def
        split: option.splits)

text \<open>
  C6 at a concrete input: \<open>bob\<close> connects his socket \<open>s1\<close> and is online with that one
  session; when \<open>s1\<close> disconnects he has no session and is offline.
\<close>

theorem registry_single_session_witness:
  "sessionsFor (fst one_session) ''bob'' = [''s1'']
   \<and> isOnline (fst one_session) ''bob''
   \<and> sessionsFor (fst (snd (handleDisconnect 2 one_session ''s1'' ''bob''))) ''bob'' = []
   \<and> \<not> isOnline (fst (snd (handleDisconnect 2 one_session ''s1'' ''bob''))) ''bob''"
proof -
  have one: "sessionsFor (fst one_session) ''bob'' = [''s1'']"
    using registry_single_session [where reg = Map.empty and s = store_ex and now = 1
        and socketId = "''s1''" and userId = "''bob''" and v = "''bob''", THEN conjunct1]
    by (simp add: one_session_def)
  note t = registry_single_session [where reg = "fst one_session" and s = "snd one_session"
      and now = 2 and socketId = "''s1''" and userId = "''bob''"]
  have off: "sessionsFor (fst (snd (handleDisconnect 2 one_session ''s1'' ''bob''))) ''bob'' = []"
    using t [where v = "''bob''", THEN conjunct2, THEN conjunct1] one by simp
  have on: "isOnline (fst one_session) ''bob''"
    using t [where v = "''bob''", THEN conjunct2, THEN conjunct2, THEN conjunct1] one by simp
  have "\<not> isOnline (fst (snd (handleDisconnect 2 one_session ''s1'' ''bob''))) ''bob''"
    using registry_single_session
      [where reg = "fst (snd (handleDisconnect 2 one_session ''s1'' ''bob''))" and v = "''bob''",
       THEN conjunct2, THEN conjunct2, THEN conjunct1] off
    by simp
  with one on off show ?thesis by simp
qed

section \<open>Conversation membership\<close>

text \<open>
  C8: creating a \<open>direct\<close> conversation with a participants list whose length is not 1
  fails (validation error, or 401 without a caller) and stores nothing; a created direct
  conversation has exactly two participants and no admins, and is the one document
  appended to the store; on an existing direct conversation \<open>addParticipants\<close> and
  \<open>removeParticipants\<close> fail and leave the store as it was.
\<close>

theorem direct_conversation_invariant:
  "(length participants \<noteq> 1 \<longrightarrow>
      createConversation unreadInit newId now s caller ''direct'' participants name description avatar
        = (if caller = None then Reply 401 ''Unauthorized''
           else Reply 400 ''Direct conversation must have exactly 2 participants'', s))
   \<and> (createConversation unreadInit newId now s caller ''direct'' participants name description avatar
          = (ReplyConversation code c, s') \<longrightarrow>
        length (c_participants c) = 2 \<and> c_admins c = [] \<and> c_type c = ''direct''
        \<and> s' = s\<lparr>conversations := conversations s @ [c]\<rparr>)
   \<and> (wf_store s \<and> find (\<lambda>c. c_id c = conversationId) (conversations s) = Some d
        \<and> c_type d = ''direct'' \<longrightarrow>
        snd (addParticipants now s caller conversationId ps) = s
        \<and> fst (addParticipants now s caller conversationId ps)
            \<in> {Reply 401 ''Unauthorized'', Reply 404 ''Conversation not found'',
               Reply 400 ''Cannot add participants to direct conversation''}
        \<and> snd (removeParticipants s caller conversationId ps) = s
        \<and> fst (removeParticipants s caller conversationId ps)
            \<in> {Reply 401 ''Unauthorized'', Reply 404 ''Conversation not found'',
               Reply 400 ''Cannot remove participants from direct conversation''})"
proof (intro conjI impI)
  assume "length participants \<noteq> 1"
  then show "createConversation unreadInit newId now s caller ''direct'' participants name
               description avatar
             = (if caller = None then Reply 401 ''Unauthorized''
                else Reply 400 ''Direct conversation must have exactly 2 participants'', s)"
    by (simp add: createConversation_def split: option.splits)
next
  assume ok: "createConversation unreadInit newId now s caller ''direct'' participants name
                description avatar = (ReplyConversation code c, s')"
  then have len: "length participants = 1"
    by (auto simp: createConversation_def split: option.splits if_splits)
  from ok show "length (c_participants c) = 2"
    by (auto simp: createConversation_def Let_def len split: option.splits if_splits)
  from ok show "c_admins c = []"
    by (auto simp: createConversation_def Let_def split: option.splits if_splits)
  from ok show "c_type c = ''direct''"
    by (auto simp: createConversation_def Let_def split: option.splits if_splits)
  from ok show "s' = s\<lparr>conversations := conversations s @ [c]\<rparr>"
    by (auto simp: createConversation_def Let_def split: option.splits if_splits)
next
  assume h: "wf_store s \<and> find (\<lambda>c. c_id c = conversationId) (conversations s) = Some d
             \<and> c_type d = ''direct''"
  then have fc: "\<And>u. findConversation s conversationId u
                  = (if isParticipant u d \<and> \<not> c_isDeleted d then Some d else None)"
    using findConversation_unique by blast
  from h have dir: "c_type d = ''direct''" by simp
  show "snd (addParticipants now s caller conversationId ps) = s"
    by (simp add: addParticipants_def fc dir split: option.splits)
  show "fst (addParticipants now s caller conversationId ps)
            \<in> {Reply 401 ''Unauthorized'', Reply 404 ''Conversation not found'',
               Reply 400 ''Cannot add participants to direct conversation''}"
    by (simp add: addParticipants_def fc dir split: option.splits)
  show "snd (removeParticipants s caller conversationId ps) = s"
    by (simp add: removeParticipants_def fc dir split: option.splits)
  show "fst (removeParticipants s caller conversationId ps)
            \<in> {Reply 401 ''Unauthorized'', Reply 404 ''Conversation not found'',
               Reply 400 ''Cannot remove participants from direct conversation''}"
    by (simp add: removeParticipants_def fc dir split: option.splits)
qed

lemma create_direct_ex:
  "createConversation (\<lambda>ps. []) ''c3'' 5 store_ex (Some ''alice'') ''direct'' [''carol'']
     None None None
   = (ReplyConversation 201 conv3, store_ex\<lparr>conversations := [conv1, conv2, conv3]\<rparr>)"
  by (simp add: createConversation_def existingUsers_def store_ex_def conv3_def Let_def)

text \<open>
  C8 at concrete inputs: \<open>alice\<close> asks for a direct conversation with two others (refused),
  then with \<open>carol\<close> (created, two participants, no admins); adding to and removing from
  the direct conversation \<open>c2\<close> fail and change nothing.
\<close>

theorem direct_conversation_invariant_witness:
  "length [''bob'', ''carol''] \<noteq> 1
   \<and> createConversation (\<lambda>ps. []) ''c3'' 5 store_ex (Some ''alice'') ''direct''
        [''bob'', ''carol''] None None None
       = (Reply 400 ''Direct conversation must have exactly 2 participants'', store_ex)
   \<and> createConversation (\<lambda>ps. []) ''c3'' 5 store_ex (Some ''alice'') ''direct'' [''carol'']
        None None None
       = (ReplyConversation 201 conv3, store_ex\<lparr>conversations := [conv1, conv2, conv3]\<rparr>)
   \<and> length (c_participants conv3) = 2 \<and> c_admins conv3 = []
   \<and> wf_store store_ex
   \<and> find (\<lambda>c. c_id c = ''c2'') (conversations store_ex) = Some conv2
   \<and> c_type conv2 = ''direct''
   \<and> snd (addParticipants 5 store_ex (Some ''alice'') ''c2'' [''carol'']) = store_ex
   \<and> snd (removeParticipants store_ex (Some ''alice'') ''c2'' [''bob'']) = store_ex"
proof -
  have h1: "length [''bob'', ''carol''] \<noteq> 1" by simp
  have h3: "wf_store store_ex \<and> find (\<lambda>c. c_id c = ''c2'') (conversations store_ex) = Some conv2
            \<and> c_type conv2 = ''direct''"
    by (simp add: wf_store_ex) (simp add: ex_defs)
  note t1 = direct_conversation_invariant
    [where participants = "[''bob'', ''carol'']" and unreadInit = "\<lambda>ps. []" and newId = "''c3''"
       and now = 5 and s = store_ex and caller = "Some ''alice''" and name = None
       and description = None and avatar = None, THEN conjunct1, rule_format, OF h1]
  note t2 = direct_conversation_invariant
    [where participants = "[''carol'']" and unreadInit = "\<lambda>ps. []" and newId = "''c3''"
       and now = 5 and s = store_ex and caller = "Some ''alice''" and name = None
       and description = None and avatar = None,
     THEN conjunct2, THEN conjunct1, rule_format, OF create_direct_ex]
  note t3 = direct_conversation_invariant
    [where s = store_ex and conversationId = "''c2''" and d = conv2,
     THEN conjunct2, THEN conjunct2, rule_format, OF h3]
  show ?thesis
    using h1 h3 t1 t2 t3 [of 5 "Some ''alice''" "[''carol'']"] t3 [of 5 "Some ''alice''" "[''bob'']"]
      create_direct_ex
    by simp
qed

text \<open>
  The role checks read the role from the first participant entry of a user. With one
  entry per user it is the user's entry, and the creator of a conversation is looked up
  as its owner even when the request also lists the creator among the participants.
\<close>

lemma owner_entry_found:
  "distinct (map p_user ps) \<Longrightarrow> p \<in> set ps \<Longrightarrow> find (\<lambda>q. p_user q = p_user p) ps = Some p"
proof (induction ps)
  case Nil
  then show ?case by simp
next
  case (Cons a ps)
  then show ?case by (cases "a = p") (auto simp: rev_image_eqI)
qed

lemma createConversation_owner:
  "createConversation unreadInit newId now s (Some creatorId) ty participants name description avatar
     = (ReplyConversation code c, s') \<Longrightarrow>
   map_option p_role (find (\<lambda>p. p_user p = creatorId) (c_participants c)) = Some ''owner''"
  by (auto simp: createConversation_def Let_def split: if_splits)

text \<open>
  C7: let \<open>c\<close> be the conversation with the given id. If a participant holding the owner
  role is among the users to remove, \<open>removeParticipants\<close> fails with an error reply
  (status 400, 401, 403 or 404) and the store, hence the participants and admins of \<open>c\<close>,
  is as before; for a caller who passes the membership and role checks the reply is the
  owner-protection error. If the caller's participant entry (the one the controller looks
  up) has the owner role, \<open>leaveConversation\<close> fails with an error reply (400 or 404)
  and the store is as before; on a live group conversation the reply is the
  owner-protection error.
\<close>

theorem owner_protection:
  assumes wf: "wf_store s"
    and c: "find (\<lambda>c. c_id c = conversationId) (conversations s) = Some c"
  shows
    "(list_ex (\<lambda>p. p_role p = ''owner'' \<and> p_user p \<in> set participants) (c_participants c) \<longrightarrow>
        (\<exists>code msg. removeParticipants s caller conversationId participants = (Reply code msg, s)
           \<and> code \<in> {400, 401, 403, 404})
        \<and> (isParticipant userId c \<and> \<not> c_isDeleted c \<and> c_type c \<noteq> ''direct''
             \<and> hasRole [''admin'', ''owner''] (find (\<lambda>p. p_user p = userId) (c_participants c)) \<longrightarrow>
            removeParticipants s (Some userId) conversationId participants
              = (Reply 400 ''Cannot remove the owner from conversation'', s)))
     \<and> (map_option p_role (find (\<lambda>p. p_user p = userId) (c_participants c)) = Some ''owner'' \<longrightarrow>
        (\<exists>code msg. leaveConversation s (Some userId) conversationId = (Reply code msg, s)
           \<and> code \<in> {400, 404})
        \<and> (\<not> c_isDeleted c \<and> c_type c \<noteq> ''direct'' \<longrightarrow>
            leaveConversation s (Some userId) conversationId
              = (Reply 400 ''Owner cannot leave the conversation. Please transfer ownership or delete the conversation instead.'', s)))"
proof -
  have fc: "\<And>u. findConversation s conversationId u
              = (if isParticipant u c \<and> \<not> c_isDeleted c then Some c else None)"
    using findConversation_unique [OF wf c] by simp
  have rm: "\<exists>code msg. removeParticipants s caller conversationId participants = (Reply code msg, s)
              \<and> code \<in> {400, 401, 403, 404}"
    if "list_ex (\<lambda>p. p_role p = ''owner'' \<and> p_user p \<in> set participants) (c_participants c)"
  proof -
    from that have "find (\<lambda>p. p_role p = ''owner'' \<and> p_user p \<in> set participants)
                      (c_participants c) \<noteq> None"
      by (auto simp: find_None_iff list_ex_iff)
    then show ?thesis
      by (auto simp: removeParticipants_def fc split: option.splits)
  qed
  have rm2: "removeParticipants s (Some userId) conversationId participants
              = (Reply 400 ''Cannot remove the owner from conversation'', s)"
    if "list_ex (\<lambda>p. p_role p = ''owner'' \<and> p_user p \<in> set participants) (c_participants c)"
      and "isParticipant userId c \<and> \<not> c_isDeleted c \<and> c_type c \<noteq> ''direct''
             \<and> hasRole [''admin'', ''owner''] (find (\<lambda>p. p_user p = userId) (c_participants c))"
  proof -
    from that(1) have "find (\<lambda>p. p_role p = ''owner'' \<and> p_user p \<in> set participants)
                      (c_participants c) \<noteq> None"
      by (auto simp: find_None_iff list_ex_iff)
    with that(2) show ?thesis
      by (auto simp: removeParticipants_def fc split: option.splits)
  qed
  have lv: "(\<exists>code msg. leaveConversation s (Some userId) conversationId = (Reply code msg, s)
           \<and> code \<in> {400, 404})
        \<and> (\<not> c_isDeleted c \<and> c_type c \<noteq> ''direct'' \<longrightarrow>
            leaveConversation s (Some userId) conversationId
              = (Reply 400 ''Owner cannot leave the conversation. Please transfer ownership or delete the conversation instead.'', s))"
    if o: "map_option p_role (find (\<lambda>p. p_user p = userId) (c_participants c)) = Some ''owner''"
  proof -
    from o obtain p where "find (\<lambda>p. p_user p = userId) (c_participants c) = Some p" by auto
    then have "isParticipant userId c"
      by (auto simp: isParticipant_def list_ex_iff find_Some_iff)
    with o show ?thesis
      by (simp add: leaveConversation_def fc)
  qed
  from rm rm2 lv show ?thesis by blast
qed

text \<open>
  C7 at a concrete input: \<open>alice\<close> owns the group \<open>c1\<close>; removing her and her leaving
  are both refused, and the store is unchanged.
\<close>

theorem owner_protection_witness:
  "wf_store store_ex
   \<and> find (\<lambda>c. c_id c = ''c1'') (conversations store_ex) = Some conv1
   \<and> list_ex (\<lambda>p. p_role p = ''owner'' \<and> p_user p \<in> set [''alice'']) (c_participants conv1)
   \<and> removeParticipants store_ex (Some ''alice'') ''c1'' [''alice'']
       = (Reply 400 ''Cannot remove the owner from conversation'', store_ex)
   \<and> map_option p_role (find (\<lambda>p. p_user p = ''alice'') (c_participants conv1)) = Some ''owner''
   \<and> leaveConversation store_ex (Some ''alice'') ''c1''
       = (Reply 400 ''Owner cannot leave the conversation. Please transfer ownership or delete the conversation instead.'', store_ex)"
proof -
  have c: "find (\<lambda>c. c_id c = ''c1'') (conversations store_ex) = Some conv1"
    by (simp add: ex_defs)
  have o: "list_ex (\<lambda>p. p_role p = ''owner'' \<and> p_user p \<in> set [''alice'']) (c_participants conv1)"
    by (simp add: ex_defs)
  have a: "isParticipant ''alice'' conv1 \<and> \<not> c_isDeleted conv1 \<and> c_type conv1 \<noteq> ''direct''
           \<and> hasRole [''admin'', ''owner''] (find (\<lambda>p. p_user p = ''alice'') (c_participants conv1))"
    by (simp add: ex_defs isParticipant_def hasRole_def)
  have l: "map_option p_role (find (\<lambda>p. p_user p = ''alice'') (c_participants conv1)) = Some ''owner''"
    by (simp add: ex_defs)
  from owner_protection [OF wf_store_ex c, of "[''alice'']" "Some ''alice''" "''alice''"] o a l
    wf_store_ex c
  show ?thesis by simp
qed

section \<open>Sending\<close>

text \<open>
  The real-time handler, given a fresh message id: the store gains one message, with the
  sender in \<open>readBy\<close>.
\<close>

lemma handleSendMessage_messages:
  assumes "newId \<notin> set (map m_id (messages s))"
    and "formattedContent_socket ty content = Inr fc"
  shows "messages (snd (handleSendMessage newId now reg s socketId userId conversationId content ty))
         = messages s @ [newMessage newId now conversationId userId ty fc (Some ''sent'')
                           [\<lparr>rb_user = userId, rb_readAt = now\<rparr>]]"
proof -
  have fresh: "\<forall>x\<in>set (messages s). \<not> m_id x = newId"
    using assms(1) by auto
  have "updateOne (\<lambda>m. m_id m = newId) (markReadBy userId now)
          (messages s @ [newMessage newId now conversationId userId ty fc (Some ''sent'') []])
        = messages s @ [markReadBy userId now
                          (newMessage newId now conversationId userId ty fc (Some ''sent'') [])]"
    by (rule updateOne_append_fresh [OF fresh]) (simp add: newMessage_def)
  then show ?thesis
    using assms(2)
    by (simp add: handleSendMessage_def Let_def markReadBy_def addToSet_def newMessage_def)
qed

text \<open>The REST controller, for a sender who takes part in the conversation.\<close>

lemma sendMessage_ok:
  assumes "find (\<lambda>c. c_id c = conversationId \<and> isParticipant senderId c) (conversations s) = Some c"
  shows "sendMessage dflt newId now s (Some senderId) conversationId content type_in
         = (ReplyMessage 201
              (newMessage newId now conversationId senderId
                 (Some (case type_in of None \<Rightarrow> ''text'' | Some t \<Rightarrow> t))
                 (formattedContent_rest (case type_in of None \<Rightarrow> ''text'' | Some t \<Rightarrow> t) content)
                 None dflt),
            s\<lparr>messages := messages s @
                 [newMessage newId now conversationId senderId
                    (Some (case type_in of None \<Rightarrow> ''text'' | Some t \<Rightarrow> t))
                    (formattedContent_rest (case type_in of None \<Rightarrow> ''text'' | Some t \<Rightarrow> t) content)
                    None dflt],
              conversations := updateOne (\<lambda>d. c_id d = c_id c)
                                 (\<lambda>d. d\<lparr>c_lastMessage := Some newId\<rparr>) (conversations s)\<rparr>)"
  using assms by (simp add: sendMessage_def Let_def)

text \<open>
  The REST controller writes \<open>lastMessage\<close> and no unread counter; the real-time
  handler writes \<open>lastMessage\<close> and increments the counter of every other user.
\<close>

lemma map_updateOne_same:
  "(\<And>x. g (f x) = g x) \<Longrightarrow> map g (updateOne P f xs) = map g xs"
  by (induction xs) auto

lemma sendMessage_unreadCount:
  "map c_unreadCount (conversations (snd (sendMessage dflt newId now s caller conversationId content type_in)))
   = map c_unreadCount (conversations s)"
  by (simp add: sendMessage_def Let_def map_updateOne_same split: option.splits)

lemma handleSendMessage_conversations:
  assumes "formattedContent_socket ty content = Inr fc"
  shows "conversations (snd (handleSendMessage newId now reg s socketId userId conversationId content ty))
         = updateOne (\<lambda>c. c_id c = conversationId)
             (\<lambda>c. c\<lparr>c_lastMessage := Some newId,
                    c_unreadCount := incUnread userId (c_unreadCount c)\<rparr>)
             (conversations s)"
  using assms by (simp add: handleSendMessage_def Let_def)

lemma incUnread_nth:
  "i < length es \<Longrightarrow>
   incUnread userId es ! i
     = (if u_user (es ! i) \<noteq> userId then (es ! i)\<lparr>u_count := u_count (es ! i) + 1\<rparr> else es ! i)"
  by (simp add: incUnread_def)

subsection \<open>Sender auto-read\<close>

text \<open>
  C2 holds on the real-time path (\<open>handleSendMessage_messages\<close>) and fails on the REST
  path: \<open>sendMessage\<close> builds the message without \<open>readBy\<close> and never adds the sender,
  so the stored message has the schema's default. With the empty default, the message
  \<open>alice\<close> sends into \<open>c1\<close> is stored with an empty \<open>readBy\<close>.
\<close>

theorem rest_send_sender_unread:
  "sendMessage [] ''m2'' 7 store_ex (Some ''alice'') ''c1'' (JStr ''hi'') (Some ''text'')
     = (ReplyMessage 201 msg2,
        store_ex\<lparr>messages := [msg1, msg2],
                  conversations := [conv1\<lparr>c_lastMessage := Some ''m2''\<rparr>, conv2]\<rparr>)
   \<and> m_readBy msg2 = []
   \<and> \<not> hasRead ''alice'' msg2"
  by (simp add: sendMessage_def isParticipant_def formattedContent_rest_def newMessage_def
        hasRead_def Let_def msg2_def
        store_ex_def conv1_def conv2_def msg1_def alice_p_def bob_p_def)

subsection \<open>Conversation update\<close>

text \<open>
  C3 holds on the real-time path (\<open>handleSendMessage_conversations\<close>) and fails on the
  REST path: after \<open>alice\<close> sends into \<open>c1\<close> through \<open>sendMessage\<close>, \<open>lastMessage\<close>
  is the new message but the unread counter of \<open>bob\<close> is still 1; the same send through
  the real-time handler raises it to 2.
\<close>

theorem rest_send_unread_counters:
  "conversations (snd (sendMessage [] ''m2'' 7 store_ex (Some ''alice'') ''c1'' (JStr ''hi'')
                         (Some ''text'')))
     = [conv1\<lparr>c_lastMessage := Some ''m2''\<rparr>, conv2]
   \<and> unreadOf conv1 ''bob'' = Some 1
   \<and> unreadOf (conv1\<lparr>c_lastMessage := Some ''m2''\<rparr>) ''bob'' = Some 1
   \<and> conversations (snd (handleSendMessage ''m2'' 7 Map.empty store_ex ''s1'' ''alice'' ''c1''
                            (JStr ''hi'') (Some ''text'')))
     = [conv1\<lparr>c_lastMessage := Some ''m2'',
              c_unreadCount := [\<lparr>u_user = ''alice'', u_count = 0\<rparr>,
                                \<lparr>u_user = ''bob'', u_count = 2\<rparr>]\<rparr>, conv2]"
  by (simp add: sendMessage_def handleSendMessage_def isParticipant_def formattedContent_rest_def
        formattedContent_socket_def newMessage_def incUnread_def unreadOf_def Let_def
        store_ex_def conv1_def conv2_def msg1_def alice_p_def bob_p_def)

subsection \<open>The content payload\<close>

lemma payloadField_Some:
  "payloadField ty = Some field \<Longrightarrow>
     ty = ''text'' \<and> field = ''text''
   \<or> (ty = ''image'' \<or> ty = ''video'' \<or> ty = ''file'') \<and> field = ''media''
   \<or> (ty = ''location'' \<or> ty = ''contact'' \<or> ty = ''call'' \<or> ty = ''poll'') \<and> field = ty"
  unfolding payloadField_def by (simp split: if_splits)

lemma payloadField_None:
  "payloadField ty = None \<Longrightarrow>
     ty \<noteq> ''text'' \<and> ty \<noteq> ''image'' \<and> ty \<noteq> ''video'' \<and> ty \<noteq> ''file'' \<and> ty \<noteq> ''location''
     \<and> ty \<noteq> ''contact'' \<and> ty \<noteq> ''call'' \<and> ty \<noteq> ''poll''"
  unfolding payloadField_def by (simp split: if_splits)

lemma rest_None: "payloadField ty = None \<Longrightarrow> formattedContent_rest ty content = []"
  by (drule payloadField_None) (simp add: formattedContent_rest_def)

lemma socket_None: "payloadField ty = None \<Longrightarrow> formattedContent_socket (Some ty) content = Inr []"
  by (drule payloadField_None) (simp add: formattedContent_socket_def)

lemma rest_Some:
  "payloadField ty = Some field \<Longrightarrow> formattedContent_rest ty content = [(field, content)]"
  by (drule payloadField_Some) (elim disjE conjE; simp add: formattedContent_rest_def)

lemma socket_Some:
  "payloadField ty = Some field \<Longrightarrow>
   formattedContent_socket (Some ty) content
     = (if field = ''media''
        then (case getProp content ''media'' of Inl e \<Rightarrow> Inl e | Inr v \<Rightarrow> Inr [(field, v)])
        else Inr [(field, content)])"
  by (drule payloadField_Some)
     (elim disjE conjE; simp add: formattedContent_socket_def split: sum.split)

text \<open>
  C9, as stated, fails on the real-time path: for the recognized types \<open>file\<close>,
  \<open>image\<close> and \<open>video\<close> the handler stores \<open>content.media\<close>, not the content. A
  content without such a member (here a string) leaves the \<open>media\<close> field undefined, and
  a \<open>null\<close> content makes the send fail before anything is stored.
\<close>

theorem payload_media_counterexample:
  "payloadField ''image'' = Some ''media''
   \<and> formattedContent_socket (Some ''image'') (JStr ''pic.png'') = Inr [(''media'', JUndefined)]
   \<and> handleSendMessage ''m2'' 7 Map.empty store_ex ''s1'' ''alice'' ''c1'' JNull (Some ''image'')
       = ([(ToSocket ''s1'', ''error'', PError ''Failed to send message'')], store_ex)"
  by (simp add: payloadField_def formattedContent_socket_def handleSendMessage_def)

text \<open>
  C9, amended: for a declared type that is not recognized (or is absent, on the real-time
  path) the payload is empty and the send goes through: the REST controller answers 201
  with the message, the real-time handler stores it. For a recognized type only the
  corresponding payload field is assigned; it holds the raw content, except that on the
  real-time path a \<open>file\<close>, \<open>image\<close> or \<open>video\<close> message takes the \<open>media\<close> member of
  the content (undefined when the content has none), and building the payload throws when
  that content is \<open>null\<close> or undefined.
\<close>

theorem content_payload:
  "(payloadField ty = None \<longrightarrow>
      formattedContent_rest ty content = []
      \<and> formattedContent_socket (Some ty) content = Inr []
      \<and> (find (\<lambda>c. c_id c = conversationId \<and> isParticipant userId c) (conversations s) = Some c \<longrightarrow>
           fst (sendMessage dflt newId now s (Some userId) conversationId content (Some ty))
             = ReplyMessage 201 (newMessage newId now conversationId userId (Some ty) [] None dflt))
      \<and> (newId \<notin> set (map m_id (messages s)) \<longrightarrow>
           messages (snd (handleSendMessage newId now reg s socketId userId conversationId content
                            (Some ty)))
             = messages s @ [newMessage newId now conversationId userId (Some ty) [] (Some ''sent'')
                               [\<lparr>rb_user = userId, rb_readAt = now\<rparr>]]))
   \<and> formattedContent_socket None content = Inr []
   \<and> (payloadField ty = Some field \<longrightarrow>
        formattedContent_rest ty content = [(field, content)]
        \<and> formattedContent_socket (Some ty) content
            = (if field = ''media''
               then (case getProp content ''media'' of
                       Inl e \<Rightarrow> Inl e
                     | Inr v \<Rightarrow> Inr [(field, v)])
               else Inr [(field, content)]))"
proof (intro conjI impI)
  assume n: "payloadField ty = None"
  then show r: "formattedContent_rest ty content = []"
    by (rule rest_None)
  from n show k: "formattedContent_socket (Some ty) content = Inr []"
    by (rule socket_None)
  {
    assume "find (\<lambda>c. c_id c = conversationId \<and> isParticipant userId c) (conversations s) = Some c"
    then show "fst (sendMessage dflt newId now s (Some userId) conversationId content (Some ty))
             = ReplyMessage 201 (newMessage newId now conversationId userId (Some ty) [] None dflt)"
      by (simp add: sendMessage_ok r)
  }
  {
    assume "newId \<notin> set (map m_id (messages s))"
    then show "messages (snd (handleSendMessage newId now reg s socketId userId conversationId content
                            (Some ty)))
             = messages s @ [newMessage newId now conversationId userId (Some ty) [] (Some ''sent'')
                               [\<lparr>rb_user = userId, rb_readAt = now\<rparr>]]"
      using handleSendMessage_messages [OF _ k] by simp
  }
next
  show "formattedContent_socket None content = Inr []"
    by (simp add: formattedContent_socket_def)
next
  assume f: "payloadField ty = Some field"
  then show "formattedContent_rest ty content = [(field, content)]"
    by (rule rest_Some)
  from f show "formattedContent_socket (Some ty) content
            = (if field = ''media''
               then (case getProp content ''media'' of
                       Inl e \<Rightarrow> Inl e
                     | Inr v \<Rightarrow> Inr [(field, v)])
               else Inr [(field, content)])"
    by (rule socket_Some)
qed

text \<open>
  C9 at concrete inputs: \<open>alice\<close> sends a message of the unknown type \<open>sticker\<close> into
  \<open>c1\<close> (empty payload, message stored on both paths), and an \<open>image\<close> whose content
  has a \<open>media\<close> member.
\<close>

theorem content_payload_witness:
  "payloadField ''sticker'' = None
   \<and> formattedContent_rest ''sticker'' (JStr ''x'') = []
   \<and> formattedContent_socket (Some ''sticker'') (JStr ''x'') = Inr []
   \<and> find (\<lambda>c. c_id c = ''c1'' \<and> isParticipant ''alice'' c) (conversations store_ex) = Some conv1
   \<and> fst (sendMessage [] ''m2'' 7 store_ex (Some ''alice'') ''c1'' (JStr ''x'') (Some ''sticker''))
       = ReplyMessage 201 (newMessage ''m2'' 7 ''c1'' ''alice'' (Some ''sticker'') [] None [])
   \<and> ''m2'' \<notin> set (map m_id (messages store_ex))
   \<and> messages (snd (handleSendMessage ''m2'' 7 Map.empty store_ex ''s1'' ''alice'' ''c1''
                      (JStr ''x'') (Some ''sticker'')))
       = [msg1, newMessage ''m2'' 7 ''c1'' ''alice'' (Some ''sticker'') [] (Some ''sent'')
                  [\<lparr>rb_user = ''alice'', rb_readAt = 7\<rparr>]]
   \<and> payloadField ''image'' = Some ''media''
   \<and> formattedContent_rest ''image'' (JObj [(''media'', JStr ''u'')])
       = [(''media'', JObj [(''media'', JStr ''u'')])]
   \<and> formattedContent_socket (Some ''image'') (JObj [(''media'', JStr ''u'')])
       = Inr [(''media'', JStr ''u'')]"
proof -
  have n: "payloadField ''sticker'' = None" and f: "payloadField ''image'' = Some ''media''"
    by (simp_all add: payloadField_def)
  have c: "find (\<lambda>c. c_id c = ''c1'' \<and> isParticipant ''alice'' c) (conversations store_ex)
           = Some conv1"
    by (simp add: ex_defs isParticipant_def)
  have fr: "''m2'' \<notin> set (map m_id (messages store_ex))"
    by (simp add: ex_defs)
  have ms: "messages store_ex = [msg1]"
    by (simp add: store_ex_def)
  from content_payload [where ty = "''sticker''" and content = "JStr ''x''" and s = store_ex
      and conversationId = "''c1''" and userId = "''alice''" and c = conv1 and newId = "''m2''"
      and now = 7 and dflt = "[]" and reg = Map.empty and socketId = "''s1''"]
    content_payload [where ty = "''image''" and content = "JObj [(''media'', JStr ''u'')]"
      and field = "''media''"]
    n f c fr ms
  show ?thesis by simp
qed

section \<open>Read receipts\<close>

text \<open>The batch path refuses a caller who takes no part in the conversation.\<close>

lemma markMultipleAsRead_not_participant:
  assumes "find (\<lambda>c. c_id c = conversationId \<and> isParticipant userId c) (conversations s) = None"
  shows "snd (markMultipleAsRead now s (Some userId) messageIds_in conversationId) = s"
    and "\<exists>code msg. fst (markMultipleAsRead now s (Some userId) messageIds_in conversationId)
                      = Reply code msg \<and> code \<in> {400, 404}"
  using assms by (auto simp: markMultipleAsRead_def split: option.splits)

text \<open>
  C1 holds on the batch path and fails on both single-message paths, which never look at
  the conversation's participants: \<open>carol\<close>, who takes no part in \<open>c1\<close>, marks its
  message \<open>m1\<close> read through the real-time handler and through the REST controller,
  and each call succeeds and adds her to \<open>readBy\<close>; the batch call is refused with 404.
\<close>

theorem single_read_by_outsider:
  "\<not> isParticipant ''carol'' conv1
   \<and> handleMessageRead 8 store_ex ''s3'' ''carol'' ''c1'' ''m1''
       = ([(ToRoom ''conversation:c1'', ''message:read'', PMessageRead ''m1'' ''carol'' ''c1'')],
          store_ex\<lparr>messages := [msg1\<lparr>m_readBy := [\<lparr>rb_user = ''alice'', rb_readAt = 1\<rparr>,
                                                  \<lparr>rb_user = ''carol'', rb_readAt = 8\<rparr>]\<rparr>]\<rparr>)
   \<and> markAsRead True 8 store_ex (Some ''carol'') ''m1''
       = (Reply 200 ''Message marked as read'',
          store_ex\<lparr>messages := [msg1\<lparr>m_readBy := [\<lparr>rb_user = ''alice'', rb_readAt = 1\<rparr>,
                                                  \<lparr>rb_user = ''carol'', rb_readAt = 8\<rparr>]\<rparr>]\<rparr>)
   \<and> markMultipleAsRead 8 store_ex (Some ''carol'') (Some [''m1'']) ''c1''
       = (Reply 404 ''Conversation not found or you are not a participant'', store_ex)"
  by (simp add: isParticipant_def handleMessageRead_def markAsRead_def markMultipleAsRead_def
        hasRead_def markReadBy_def addToSet_def resetUnread_def Let_def
        store_ex_def conv1_def conv2_def msg1_def alice_p_def bob_p_def)

text \<open>Marking twice leaves the store as marking once does, whatever the store.\<close>

lemma markAsRead_twice:
  "snd (markAsRead io' now' (snd (markAsRead io now s caller messageId)) caller messageId)
   = snd (markAsRead io now s caller messageId)"
proof (cases caller)
  case None
  then show ?thesis by (simp add: markAsRead_def)
next
  case (Some userId)
  show ?thesis
  proof (cases "find (\<lambda>m. m_id m = messageId) (messages s)")
    case None
    with Some show ?thesis by (simp add: markAsRead_def)
  next
    case (Some m)
    with \<open>caller = Some userId\<close> show ?thesis
      by (simp add: markAsRead_def Let_def find_markReadBy)
  qed
qed

lemma handleMessageRead_twice:
  "snd (handleMessageRead now' (snd (handleMessageRead now s socketId userId conversationId messageId))
          socketId' userId conversationId' messageId)
   = snd (handleMessageRead now s socketId userId conversationId messageId)"
proof (cases "find (\<lambda>m. m_id m = messageId) (messages s)")
  case None
  then show ?thesis by (simp add: handleMessageRead_def)
next
  case (Some m)
  then show ?thesis
    by (simp add: handleMessageRead_def Let_def find_markReadBy)
qed

text \<open>
  C4: for a stored message the user has not read, one call of the single-message path
  (REST \<open>markAsRead\<close>, real-time \<open>handleMessageRead\<close>) appends exactly one entry of the
  user to \<open>readBy\<close>; a second identical call finds the user there and changes nothing in
  the store (REST answers 400, the real-time handler returns silently), so \<open>readBy\<close> has
  grown by one and no unread counter is touched a second time. The first real-time call
  sets the caller's unread counters of the named conversation to 0; the REST call touches
  no counter.
\<close>

theorem read_marking_idempotent:
  assumes m: "find (\<lambda>m. m_id m = messageId) (messages s) = Some m"
    and unread: "\<not> hasRead userId m"
  shows
    "snd (markAsRead io now s (Some userId) messageId)
       = s\<lparr>messages := updateOne (\<lambda>m. m_id m = messageId) (markReadBy userId now) (messages s)\<rparr>
     \<and> find (\<lambda>m. m_id m = messageId) (messages (snd (markAsRead io now s (Some userId) messageId)))
         = Some (m\<lparr>m_readBy := m_readBy m @ [\<lparr>rb_user = userId, rb_readAt = now\<rparr>]\<rparr>)
     \<and> markAsRead io' now' (snd (markAsRead io now s (Some userId) messageId)) (Some userId) messageId
         = (Reply 400 ''You have already read this message'',
            snd (markAsRead io now s (Some userId) messageId))
     \<and> snd (handleMessageRead now s socketId userId conversationId messageId)
         = s\<lparr>messages := updateOne (\<lambda>m. m_id m = messageId) (markReadBy userId now) (messages s),
             conversations := updateOne (\<lambda>c. c_id c = conversationId)
                                (\<lambda>c. c\<lparr>c_unreadCount := resetUnread userId (c_unreadCount c)\<rparr>)
                                (conversations s)\<rparr>
     \<and> find (\<lambda>m. m_id m = messageId)
           (messages (snd (handleMessageRead now s socketId userId conversationId messageId)))
         = Some (m\<lparr>m_readBy := m_readBy m @ [\<lparr>rb_user = userId, rb_readAt = now\<rparr>]\<rparr>)
     \<and> handleMessageRead now' (snd (handleMessageRead now s socketId userId conversationId messageId))
           socketId' userId conversationId' messageId
         = ([], snd (handleMessageRead now s socketId userId conversationId messageId))"
proof -
  let ?ms = "updateOne (\<lambda>m. m_id m = messageId) (markReadBy userId now) (messages s)"
  have f: "find (\<lambda>m. m_id m = messageId) ?ms = Some (markReadBy userId now m)"
    by (simp add: find_markReadBy m)
  have r1: "snd (markAsRead io now s (Some userId) messageId) = s\<lparr>messages := ?ms\<rparr>"
    using m unread by (simp add: markAsRead_def Let_def)
  have r2: "snd (handleMessageRead now s socketId userId conversationId messageId)
         = s\<lparr>messages := ?ms,
             conversations := updateOne (\<lambda>c. c_id c = conversationId)
                                (\<lambda>c. c\<lparr>c_unreadCount := resetUnread userId (c_unreadCount c)\<rparr>)
                                (conversations s)\<rparr>"
    using m unread by (simp add: handleMessageRead_def Let_def)
  have a1: "markAsRead io' now' (s\<lparr>messages := ?ms\<rparr>) (Some userId) messageId
         = (Reply 400 ''You have already read this message'', s\<lparr>messages := ?ms\<rparr>)"
    by (simp add: markAsRead_def f)
  have a2: "handleMessageRead now' (s\<lparr>messages := ?ms,
             conversations := updateOne (\<lambda>c. c_id c = conversationId)
                                (\<lambda>c. c\<lparr>c_unreadCount := resetUnread userId (c_unreadCount c)\<rparr>)
                                (conversations s)\<rparr>)
           socketId' userId conversationId' messageId
         = ([], s\<lparr>messages := ?ms,
             conversations := updateOne (\<lambda>c. c_id c = conversationId)
                                (\<lambda>c. c\<lparr>c_unreadCount := resetUnread userId (c_unreadCount c)\<rparr>)
                                (conversations s)\<rparr>)"
    by (simp add: handleMessageRead_def f)
  from f have f': "find (\<lambda>m. m_id m = messageId) ?ms
                   = Some (m\<lparr>m_readBy := m_readBy m @ [\<lparr>rb_user = userId, rb_readAt = now\<rparr>]\<rparr>)"
    by (simp add: markReadBy_unread [OF unread])
  show ?thesis
    unfolding r1 r2 using a1 a2 f' by simp
qed

text \<open>
  C4 at a concrete input: \<open>bob\<close> marks \<open>m1\<close> read twice, on either path; after the
  first call \<open>readBy\<close> holds \<open>alice\<close> and \<open>bob\<close>, and the second call returns the
  store it was given.
\<close>

theorem read_marking_idempotent_witness:
  "find (\<lambda>m. m_id m = ''m1'') (messages store_ex) = Some msg1
   \<and> \<not> hasRead ''bob'' msg1
   \<and> find (\<lambda>m. m_id m = ''m1'') (messages (snd (markAsRead True 8 store_ex (Some ''bob'') ''m1'')))
       = Some (msg1\<lparr>m_readBy := [\<lparr>rb_user = ''alice'', rb_readAt = 1\<rparr>,
                                  \<lparr>rb_user = ''bob'', rb_readAt = 8\<rparr>]\<rparr>)
   \<and> markAsRead True 9 (snd (markAsRead True 8 store_ex (Some ''bob'') ''m1'')) (Some ''bob'') ''m1''
       = (Reply 400 ''You have already read this message'',
          snd (markAsRead True 8 store_ex (Some ''bob'') ''m1''))
   \<and> find (\<lambda>m. m_id m = ''m1'')
         (messages (snd (handleMessageRead 8 store_ex ''s1'' ''bob'' ''c1'' ''m1'')))
       = Some (msg1\<lparr>m_readBy := [\<lparr>rb_user = ''alice'', rb_readAt = 1\<rparr>,
                                  \<lparr>rb_user = ''bob'', rb_readAt = 8\<rparr>]\<rparr>)
   \<and> handleMessageRead 9 (snd (handleMessageRead 8 store_ex ''s1'' ''bob'' ''c1'' ''m1''))
         ''s1'' ''bob'' ''c1'' ''m1''
       = ([], snd (handleMessageRead 8 store_ex ''s1'' ''bob'' ''c1'' ''m1''))"
proof -
  have m: "find (\<lambda>m. m_id m = ''m1'') (messages store_ex) = Some msg1"
    by (simp add: ex_defs)
  have u: "\<not> hasRead ''bob'' msg1"
    by (simp add: hasRead_def msg1_def)
  have r: "m_readBy msg1 = [\<lparr>rb_user = ''alice'', rb_readAt = 1\<rparr>]"
    by (simp add: msg1_def)
  note t = read_marking_idempotent [where s = store_ex and messageId = "''m1''" and m = msg1
      and userId = "''bob''" and io = True and now = 8 and io' = True and now' = 9
      and socketId = "''s1''" and conversationId = "''c1''" and socketId' = "''s1''"
      and conversationId' = "''c1''", OF m u]
  have a: "find (\<lambda>m. m_id m = ''m1'')
             (messages (snd (markAsRead True 8 store_ex (Some ''bob'') ''m1'')))
           = Some (msg1\<lparr>m_readBy := [\<lparr>rb_user = ''alice'', rb_readAt = 1\<rparr>,
                                      \<lparr>rb_user = ''bob'', rb_readAt = 8\<rparr>]\<rparr>)"
    using t [THEN conjunct2, THEN conjunct1] by (simp add: r)
  have b: "find (\<lambda>m. m_id m = ''m1'')
             (messages (snd (handleMessageRead 8 store_ex ''s1'' ''bob'' ''c1'' ''m1'')))
           = Some (msg1\<lparr>m_readBy := [\<lparr>rb_user = ''alice'', rb_readAt = 1\<rparr>,
                                      \<lparr>rb_user = ''bob'', rb_readAt = 8\<rparr>]\<rparr>)"
    using t [THEN conjunct2, THEN conjunct2, THEN conjunct2, THEN conjunct2, THEN conjunct1]
    by (simp add: r)
  from m u a b t [THEN conjunct2, THEN conjunct2, THEN conjunct1]
    t [THEN conjunct2, THEN conjunct2, THEN conjunct2, THEN conjunct2, THEN conjunct2]
  show ?thesis by blast
qed

section \<open>Deleting a message\<close>

text \<open>
  C10: when the sender deletes a stored message, the message is flagged deleted. If it
  is the \<open>lastMessage\<close> of its conversation, only that conversation document changes:
  its \<open>lastMessage\<close> becomes a most recently created message among the conversation's
  messages that are not deleted, or is cleared when there is none. If the conversation is
  missing or its \<open>lastMessage\<close> is another message, no conversation document changes.
\<close>

theorem deleteMessage_lastMessage:
  assumes m: "find (\<lambda>m. m_id m = messageId) (messages s) = Some m"
    and sender: "m_sender m = userId"
  shows
    "messages (snd (deleteMessage now s (Some userId) messageId))
       = updateOne (\<lambda>x. m_id x = messageId)
           (\<lambda>x. x\<lparr>m_isDeleted := True, m_deletedAt := Some now, m_deletedBy := Some userId\<rparr>)
           (messages s)
     \<and> (find (\<lambda>c. c_id c = m_conversation m) (conversations s) = Some c
          \<and> c_lastMessage c = Some messageId \<longrightarrow>
        conversations (snd (deleteMessage now s (Some userId) messageId))
          = updateOne (\<lambda>d. c_id d = m_conversation m)
              (\<lambda>d. d\<lparr>c_lastMessage :=
                        map_option m_id
                          (latest (remainingIn (snd (deleteMessage now s (Some userId) messageId))
                                     (m_conversation m)))\<rparr>)
              (conversations s)
        \<and> (remainingIn (snd (deleteMessage now s (Some userId) messageId)) (m_conversation m) = [] \<longrightarrow>
             find (\<lambda>d. c_id d = m_conversation m)
               (conversations (snd (deleteMessage now s (Some userId) messageId)))
             = Some (c\<lparr>c_lastMessage := None\<rparr>))
        \<and> (remainingIn (snd (deleteMessage now s (Some userId) messageId)) (m_conversation m) \<noteq> [] \<longrightarrow>
             (\<exists>l\<in>set (remainingIn (snd (deleteMessage now s (Some userId) messageId))
                         (m_conversation m)).
                (\<forall>x\<in>set (remainingIn (snd (deleteMessage now s (Some userId) messageId))
                            (m_conversation m)). m_createdAt x \<le> m_createdAt l)
                \<and> find (\<lambda>d. c_id d = m_conversation m)
                     (conversations (snd (deleteMessage now s (Some userId) messageId)))
                   = Some (c\<lparr>c_lastMessage := Some (m_id l)\<rparr>))))
     \<and> (find (\<lambda>c. c_id c = m_conversation m) (conversations s) = None
          \<or> map_option c_lastMessage (find (\<lambda>c. c_id c = m_conversation m) (conversations s))
               \<noteq> Some (Some messageId) \<longrightarrow>
        conversations (snd (deleteMessage now s (Some userId) messageId)) = conversations s)"
proof -
  let ?s' = "snd (deleteMessage now s (Some userId) messageId)"
  let ?ms = "updateOne (\<lambda>x. m_id x = messageId)
           (\<lambda>x. x\<lparr>m_isDeleted := True, m_deletedAt := Some now, m_deletedBy := Some userId\<rparr>)
           (messages s)"
  let ?rem = "remainingIn ?s' (m_conversation m)"
  have msgs: "messages ?s' = ?ms"
    using m sender
    by (simp add: deleteMessage_def Let_def split: option.splits)
  have rem: "?rem = filter (\<lambda>x. m_conversation x = m_conversation m \<and> \<not> m_isDeleted x) ?ms"
    by (simp add: remainingIn_def msgs)
  have last: "conversations ?s'
          = updateOne (\<lambda>d. c_id d = m_conversation m)
              (\<lambda>d. d\<lparr>c_lastMessage := map_option m_id (latest ?rem)\<rparr>) (conversations s)"
    if "find (\<lambda>c. c_id c = m_conversation m) (conversations s) = Some c"
      and "c_lastMessage c = Some messageId"
  proof -
    from that(1) have "c_id c = m_conversation m"
      by (auto simp: find_Some_iff)
    with that m sender show ?thesis
      unfolding rem by (simp add: deleteMessage_def Let_def)
  qed
  have found: "find (\<lambda>d. c_id d = m_conversation m) (conversations ?s')
               = Some (c\<lparr>c_lastMessage := map_option m_id (latest ?rem)\<rparr>)"
    if "find (\<lambda>c. c_id c = m_conversation m) (conversations s) = Some c"
      and "c_lastMessage c = Some messageId"
    unfolding last [OF that] using that(1) by (simp add: find_updateOne)
  have none: "find (\<lambda>d. c_id d = m_conversation m) (conversations ?s')
               = Some (c\<lparr>c_lastMessage := None\<rparr>)"
    if "find (\<lambda>c. c_id c = m_conversation m) (conversations s) = Some c"
      and "c_lastMessage c = Some messageId" and "?rem = []"
    using found [OF that(1,2)] that(3) by simp
  have some: "\<exists>l\<in>set ?rem. (\<forall>x\<in>set ?rem. m_createdAt x \<le> m_createdAt l)
                \<and> find (\<lambda>d. c_id d = m_conversation m) (conversations ?s')
                   = Some (c\<lparr>c_lastMessage := Some (m_id l)\<rparr>)"
    if "find (\<lambda>c. c_id c = m_conversation m) (conversations s) = Some c"
      and "c_lastMessage c = Some messageId" and "?rem \<noteq> []"
  proof -
    from latest_nonempty [OF that(3)] obtain l where
      l: "l \<in> set ?rem" "latest ?rem = Some l" "\<forall>x\<in>set ?rem. m_createdAt x \<le> m_createdAt l"
      by blast
    with found [OF that(1,2)] show ?thesis by auto
  qed
  have other: "conversations ?s' = conversations s"
    if "find (\<lambda>c. c_id c = m_conversation m) (conversations s) = None
          \<or> map_option c_lastMessage (find (\<lambda>c. c_id c = m_conversation m) (conversations s))
               \<noteq> Some (Some messageId)"
    using that m sender
    by (auto simp: deleteMessage_def Let_def split: option.splits)
  show ?thesis
    using msgs last none some other by blast
qed

text \<open>
  C10 at concrete inputs: \<open>alice\<close> deletes \<open>m1\<close>, the last message of \<open>c1\<close>, and
  \<open>lastMessage\<close> becomes \<open>m0\<close>; \<open>bob\<close> deletes \<open>m0\<close>, which is not the last
  message, and the conversations stay as they were.
\<close>

theorem deleteMessage_lastMessage_witness:
  "find (\<lambda>m. m_id m = ''m1'') (messages store_two) = Some msg1
   \<and> m_sender msg1 = ''alice''
   \<and> find (\<lambda>c. c_id c = m_conversation msg1) (conversations store_two) = Some conv1
   \<and> c_lastMessage conv1 = Some ''m1''
   \<and> remainingIn (snd (deleteMessage 9 store_two (Some ''alice'') ''m1'')) (m_conversation msg1)
       = [msg0]
   \<and> conversations (snd (deleteMessage 9 store_two (Some ''alice'') ''m1''))
       = [conv1\<lparr>c_lastMessage := Some ''m0''\<rparr>, conv2]
   \<and> find (\<lambda>m. m_id m = ''m0'') (messages store_two) = Some msg0
   \<and> m_sender msg0 = ''bob''
   \<and> map_option c_lastMessage (find (\<lambda>c. c_id c = m_conversation msg0) (conversations store_two))
       \<noteq> Some (Some ''m0'')
   \<and> conversations (snd (deleteMessage 9 store_two (Some ''bob'') ''m0'')) = conversations store_two"
proof -
  have m1: "find (\<lambda>m. m_id m = ''m1'') (messages store_two) = Some msg1"
    and m0: "find (\<lambda>m. m_id m = ''m0'') (messages store_two) = Some msg0"
    by (simp_all add: ex_defs)
  have s1: "m_sender msg1 = ''alice''" and s0: "m_sender msg0 = ''bob''"
    by (simp_all add: ex_defs)
  have c: "find (\<lambda>c. c_id c = m_conversation msg1) (conversations store_two) = Some conv1"
    and l: "c_lastMessage conv1 = Some ''m1''"
    by (simp_all add: ex_defs)
  have nl: "map_option c_lastMessage
              (find (\<lambda>c. c_id c = m_conversation msg0) (conversations store_two))
            \<noteq> Some (Some ''m0'')"
    by (simp add: ex_defs)
  have rem: "remainingIn (snd (deleteMessage 9 store_two (Some ''alice'') ''m1''))
               (m_conversation msg1) = [msg0]"
    by (simp add: remainingIn_def deleteMessage_def Let_def ex_defs)
  have cs: "conversations store_two = [conv1, conv2]"
    by (simp add: ex_defs)
  have mc: "m_conversation msg1 = ''c1''" "c_id conv1 = ''c1''" "c_id conv2 = ''c2''" "m_id msg0 = ''m0''"
    by (simp_all add: ex_defs)
  from deleteMessage_lastMessage [where now = 9 and c = conv1, OF m1 s1]
    deleteMessage_lastMessage [where now = 9, OF m0 s0]
    m1 m0 s1 s0 c l nl rem
  show ?thesis
    by (simp add: cs mc)
qed

section \<open>Batch read marking\<close>

lemma markMultipleAsRead_messages:
  assumes wf: "wf_store s"
    and c: "find (\<lambda>c. c_id c = conversationId \<and> isParticipant userId c) (conversations s) = Some c"
    and ids: "messageIds \<noteq> []" and cid: "conversationId \<noteq> []"
    and sub: "toMark s messageIds conversationId userId \<noteq> []"
  shows "messages (snd (markMultipleAsRead now s (Some userId) (Some messageIds) conversationId))
         = map (\<lambda>m. if m_id m \<in> set messageIds \<and> m_conversation m = conversationId
                          \<and> \<not> hasRead userId m
                       then m\<lparr>m_readBy := m_readBy m @ [\<lparr>rb_user = userId, rb_readAt = now\<rparr>]\<rparr>
                       else m) (messages s)"
proof -
  let ?sub = "toMark s messageIds conversationId userId"
  from wf have d: "distinct (map m_id (messages s))"
    by (simp add: wf_store_def)
  have "messages (snd (markMultipleAsRead now s (Some userId) (Some messageIds) conversationId))
        = bulkWrite userId now (map m_id ?sub) (messages s)"
    using c ids cid sub
    by (simp add: markMultipleAsRead_def Let_def split: option.splits)
  also have "\<dots> = map (\<lambda>m. if m_id m \<in> set (map m_id ?sub) then markReadBy userId now m else m)
                      (messages s)"
    by (rule bulkWrite_map [OF d])
  also have "\<dots> = map (\<lambda>m. if m_id m \<in> set messageIds \<and> m_conversation m = conversationId
                          \<and> \<not> hasRead userId m
                       then m\<lparr>m_readBy := m_readBy m @ [\<lparr>rb_user = userId, rb_readAt = now\<rparr>]\<rparr>
                       else m) (messages s)"
  proof (rule map_cong [OF refl])
    fix m assume "m \<in> set (messages s)"
    from toMark_ids [OF d this, of messageIds conversationId userId]
    show "(if m_id m \<in> set (map m_id ?sub) then markReadBy userId now m else m)
          = (if m_id m \<in> set messageIds \<and> m_conversation m = conversationId \<and> \<not> hasRead userId m
             then m\<lparr>m_readBy := m_readBy m @ [\<lparr>rb_user = userId, rb_readAt = now\<rparr>]\<rparr>
             else m)"
      by (auto simp: markReadBy_unread)
  qed
  finally show ?thesis .
qed

lemma markMultipleAsRead_latest:
  assumes wf: "wf_store s"
  shows "latest (filter (\<lambda>m. m_id m \<in> set (map m_id (toMark s messageIds conversationId userId)))
                   (bulkWrite userId now (map m_id (toMark s messageIds conversationId userId))
                      (messages s)))
         = map_option (markReadBy userId now) (latest (toMark s messageIds conversationId userId))"
proof -
  let ?sub = "toMark s messageIds conversationId userId"
  let ?g = "\<lambda>m. if m_id m \<in> set (map m_id ?sub) then markReadBy userId now m else m"
  from wf have d: "distinct (map m_id (messages s))"
    by (simp add: wf_store_def)
  have idg: "\<And>m. m_id (?g m) = m_id m" by simp
  have "filter (\<lambda>m. m_id m \<in> set (map m_id ?sub)) (map ?g (messages s))
        = map ?g (filter (\<lambda>m. m_id m \<in> set (map m_id ?sub)) (messages s))"
    by (simp add: filter_map comp_def)
  also have "filter (\<lambda>m. m_id m \<in> set (map m_id ?sub)) (messages s) = ?sub"
    unfolding toMark_def [of s messageIds conversationId userId, THEN eq_reflection]
  proof (rule filter_cong [OF refl])
    fix m assume "m \<in> set (messages s)"
    from toMark_ids [OF d this, of messageIds conversationId userId]
    show "(m_id m \<in> set (map m_id (filter (\<lambda>m. m_id m \<in> set messageIds
              \<and> m_conversation m = conversationId \<and> \<not> hasRead userId m) (messages s))))
          = (m_id m \<in> set messageIds \<and> m_conversation m = conversationId \<and> \<not> hasRead userId m)"
      by (simp add: toMark_def)
  qed
  also have "map ?g ?sub = map (markReadBy userId now) ?sub"
    by (rule map_cong [OF refl]) simp
  finally have "filter (\<lambda>m. m_id m \<in> set (map m_id ?sub)) (map ?g (messages s))
                = map (markReadBy userId now) ?sub" .
  then show ?thesis
    by (simp add: bulkWrite_map [OF d] latest_map)
qed

lemma markMultipleAsRead_conversations:
  assumes wf: "wf_store s"
    and c: "find (\<lambda>c. c_id c = conversationId) (conversations s) = Some c"
    and part: "isParticipant userId c"
    and ids: "messageIds \<noteq> []" and cid: "conversationId \<noteq> []"
    and l: "latest (toMark s messageIds conversationId userId) = Some l"
  shows "conversations (snd (markMultipleAsRead now s (Some userId) (Some messageIds) conversationId))
         = map (\<lambda>d. if c_id d = conversationId
                     then d\<lparr>c_participants :=
                              updateOne (\<lambda>p. p_user p = userId)
                                (\<lambda>p. p\<lparr>p_lastReadMessage := Some (m_id l)\<rparr>) (c_participants d),
                            c_unreadCount :=
                              updateOne (\<lambda>e. u_user e = userId) (\<lambda>e. e\<lparr>u_count := 0\<rparr>)
                                (c_unreadCount d)\<rparr>
                     else d) (conversations s)"
proof -
  let ?sub = "toMark s messageIds conversationId userId"
  let ?f1 = "\<lambda>d. d\<lparr>c_participants :=
                       updateOne (\<lambda>p. p_user p = userId)
                         (\<lambda>p. p\<lparr>p_lastReadMessage := Some (m_id l)\<rparr>) (c_participants d)\<rparr>"
  let ?f2 = "\<lambda>d. d\<lparr>c_unreadCount :=
                       updateOne (\<lambda>e. u_user e = userId) (\<lambda>e. e\<lparr>u_count := 0\<rparr>)
                         (c_unreadCount d)\<rparr>"
  let ?Q2 = "\<lambda>d. list_ex (\<lambda>e. u_user e = userId) (c_unreadCount d)"
  let ?cs1 = "map (\<lambda>d. if c_id d = conversationId then ?f1 d else d) (conversations s)"
  from wf have d: "distinct (map c_id (conversations s))"
    by (simp add: wf_store_def)
  from l have sub: "?sub \<noteq> []" by auto
  have fp: "find (\<lambda>c. c_id c = conversationId \<and> isParticipant userId c) (conversations s) = Some c"
    using find_id_unique [OF d c, of "isParticipant userId"] part by simp
  have lat: "latest (filter (\<lambda>m. m_id m \<in> set (map m_id ?sub))
                      (bulkWrite userId now (map m_id ?sub) (messages s)))
             = Some (markReadBy userId now l)"
    using markMultipleAsRead_latest [OF wf, of messageIds conversationId userId now] l by simp
  have conv: "conversations (snd (markMultipleAsRead now s (Some userId) (Some messageIds)
                                   conversationId))
              = updateOne (\<lambda>d. c_id d = conversationId \<and> ?Q2 d) ?f2
                  (updateOne (\<lambda>d. c_id d = conversationId \<and> isParticipant userId d) ?f1
                     (conversations s))"
    using fp ids cid sub lat
    by (simp add: markMultipleAsRead_def Let_def)
  have only: "\<forall>x\<in>set (conversations s). c_id x = conversationId \<and> \<not> isParticipant userId x
                \<longrightarrow> ?f1 x = x"
    using find_key_unique [OF d c] part by blast
  have u1: "updateOne (\<lambda>d. c_id d = conversationId \<and> isParticipant userId d) ?f1 (conversations s)
            = ?cs1"
    by (rule updateOne_keyed [OF d only])
  have "c_id \<circ> (\<lambda>d. if c_id d = conversationId then ?f1 d else d) = c_id"
    by (auto simp: fun_eq_iff)
  then have ids1: "map c_id ?cs1 = map c_id (conversations s)"
    by simp
  have d1: "distinct (map c_id ?cs1)"
    unfolding ids1 by (rule d)
  have noent: "\<forall>x\<in>set ?cs1. c_id x = conversationId \<and> \<not> ?Q2 x \<longrightarrow> ?f2 x = x"
    by (auto simp: list_ex_iff updateOne_none)
  have u2: "updateOne (\<lambda>d. c_id d = conversationId \<and> ?Q2 d) ?f2 ?cs1
            = map (\<lambda>d. if c_id d = conversationId then ?f2 d else d) ?cs1"
    by (rule updateOne_keyed [OF d1 noent])
  show ?thesis
    unfolding conv u1 u2 by (auto simp: comp_def)
qed

lemma find_map_keyed:
  "(\<And>x. k (g x) = k x) \<Longrightarrow> find (\<lambda>x. k x = i) (map g xs) = map_option g (find (\<lambda>x. k x = i) xs)"
  by (induction xs) auto

text \<open>Calls that do not pass validation are refused and change nothing.\<close>

lemma markMultipleAsRead_invalid:
  "markMultipleAsRead now s (Some userId) None conversationId
     = (Reply 400 ''Invalid messageIds. Must be a non-empty array.'', s)"
  "markMultipleAsRead now s (Some userId) (Some []) conversationId
     = (Reply 400 ''Invalid messageIds. Must be a non-empty array.'', s)"
  "messageIds \<noteq> [] \<Longrightarrow>
   markMultipleAsRead now s (Some userId) (Some messageIds) []
     = (Reply 400 ''conversationId is required'', s)"
  by (simp_all add: markMultipleAsRead_def)

text \<open>
  C5, as stated, fails: an empty \<open>messageIds\<close> array gives an empty subset, yet the call
  does not succeed with zero updated ids; a guard refuses it with status 400.
\<close>

theorem markMultipleAsRead_empty_counterexample:
  "toMark store_ex [] ''c1'' ''bob'' = []
   \<and> isParticipant ''bob'' conv1
   \<and> markMultipleAsRead 8 store_ex (Some ''bob'') (Some []) ''c1''
       = (Reply 400 ''Invalid messageIds. Must be a non-empty array.'', store_ex)"
  by (simp add: toMark_def isParticipant_def markMultipleAsRead_def conv1_def alice_p_def bob_p_def)

text \<open>
  C5, amended: for a call by a participant of the conversation with a non-empty
  \<open>messageIds\<close> array and a conversation id, let the subset be the messages among
  \<open>messageIds\<close> that belong to the conversation and do not have the user in \<open>readBy\<close>.
  If the subset is empty the call succeeds, reports no updated ids and leaves the store as
  it was. Otherwise the reply names the subset's ids; exactly the subset's messages
  change, each gaining the user's entry at the end of \<open>readBy\<close>; in the conversation
  document the user's \<open>lastReadMessage\<close> is a most recently created message of the
  subset and the user's unread counter, when the conversation holds one, is 0; no other
  document changes.
\<close>

theorem markMultipleAsRead_effect:
  assumes wf: "wf_store s"
    and c: "find (\<lambda>c. c_id c = conversationId) (conversations s) = Some c"
    and part: "isParticipant userId c"
    and ids: "messageIds \<noteq> []" and cid: "conversationId \<noteq> []"
  shows
    "(toMark s messageIds conversationId userId = [] \<longrightarrow>
        markMultipleAsRead now s (Some userId) (Some messageIds) conversationId
          = (ReplyBatch 200 ''No new messages to mark as read'' None [], s))
     \<and> (toMark s messageIds conversationId userId \<noteq> [] \<longrightarrow>
        fst (markMultipleAsRead now s (Some userId) (Some messageIds) conversationId)
          = ReplyBatch 200 ''Messages marked as read successfully''
              (Some (length (toMark s messageIds conversationId userId)))
              (map m_id (toMark s messageIds conversationId userId))
        \<and> messages (snd (markMultipleAsRead now s (Some userId) (Some messageIds) conversationId))
            = map (\<lambda>m. if m_id m \<in> set messageIds \<and> m_conversation m = conversationId
                             \<and> \<not> hasRead userId m
                          then m\<lparr>m_readBy := m_readBy m @ [\<lparr>rb_user = userId, rb_readAt = now\<rparr>]\<rparr>
                          else m) (messages s)
        \<and> users (snd (markMultipleAsRead now s (Some userId) (Some messageIds) conversationId))
            = users s
        \<and> (\<exists>l\<in>set (toMark s messageIds conversationId userId).
              (\<forall>m\<in>set (toMark s messageIds conversationId userId). m_createdAt m \<le> m_createdAt l)
              \<and> conversations
                   (snd (markMultipleAsRead now s (Some userId) (Some messageIds) conversationId))
                 = map (\<lambda>d. if c_id d = conversationId
                             then d\<lparr>c_participants :=
                                      updateOne (\<lambda>p. p_user p = userId)
                                        (\<lambda>p. p\<lparr>p_lastReadMessage := Some (m_id l)\<rparr>)
                                        (c_participants d),
                                    c_unreadCount :=
                                      updateOne (\<lambda>e. u_user e = userId) (\<lambda>e. e\<lparr>u_count := 0\<rparr>)
                                        (c_unreadCount d)\<rparr>
                             else d) (conversations s)
              \<and> (\<exists>c'. find (\<lambda>d. c_id d = conversationId)
                          (conversations
                             (snd (markMultipleAsRead now s (Some userId) (Some messageIds)
                                     conversationId)))
                        = Some c'
                      \<and> watermarkOf c' userId = Some (m_id l)
                      \<and> unreadOf c' userId = map_option (\<lambda>n. 0) (unreadOf c userId))))"
proof -
  let ?sub = "toMark s messageIds conversationId userId"
  let ?res = "markMultipleAsRead now s (Some userId) (Some messageIds) conversationId"
  from wf have d: "distinct (map c_id (conversations s))"
    by (simp add: wf_store_def)
  have fp: "find (\<lambda>c. c_id c = conversationId \<and> isParticipant userId c) (conversations s) = Some c"
    using find_id_unique [OF d c, of "isParticipant userId"] part by simp
  have empty: "?res = (ReplyBatch 200 ''No new messages to mark as read'' None [], s)"
    if "?sub = []"
    using that fp ids cid by (simp add: markMultipleAsRead_def)
  have reply: "fst ?res = ReplyBatch 200 ''Messages marked as read successfully''
                            (Some (length ?sub)) (map m_id ?sub)"
    if "?sub \<noteq> []"
    using that fp ids cid by (simp add: markMultipleAsRead_def Let_def split: option.splits)
  have usrs: "users (snd ?res) = users s"
    using fp ids cid by (simp add: markMultipleAsRead_def Let_def split: option.splits)
  have msgs: "messages (snd ?res)
            = map (\<lambda>m. if m_id m \<in> set messageIds \<and> m_conversation m = conversationId
                             \<and> \<not> hasRead userId m
                          then m\<lparr>m_readBy := m_readBy m @ [\<lparr>rb_user = userId, rb_readAt = now\<rparr>]\<rparr>
                          else m) (messages s)"
    if "?sub \<noteq> []"
    by (rule markMultipleAsRead_messages [OF wf fp ids cid that])
  have convs: "\<exists>l\<in>set ?sub.
              (\<forall>m\<in>set ?sub. m_createdAt m \<le> m_createdAt l)
              \<and> conversations (snd ?res)
                 = map (\<lambda>d. if c_id d = conversationId
                             then d\<lparr>c_participants :=
                                      updateOne (\<lambda>p. p_user p = userId)
                                        (\<lambda>p. p\<lparr>p_lastReadMessage := Some (m_id l)\<rparr>)
                                        (c_participants d),
                                    c_unreadCount :=
                                      updateOne (\<lambda>e. u_user e = userId) (\<lambda>e. e\<lparr>u_count := 0\<rparr>)
                                        (c_unreadCount d)\<rparr>
                             else d) (conversations s)
              \<and> (\<exists>c'. find (\<lambda>d. c_id d = conversationId) (conversations (snd ?res)) = Some c'
                      \<and> watermarkOf c' userId = Some (m_id l)
                      \<and> unreadOf c' userId = map_option (\<lambda>n. 0) (unreadOf c userId))"
    if ne: "?sub \<noteq> []"
  proof -
    from latest_nonempty [OF ne] obtain l where
      l: "l \<in> set ?sub" "latest ?sub = Some l" "\<forall>m\<in>set ?sub. m_createdAt m \<le> m_createdAt l"
      by blast
    let ?g = "\<lambda>d. if c_id d = conversationId
                   then d\<lparr>c_participants :=
                            updateOne (\<lambda>p. p_user p = userId)
                              (\<lambda>p. p\<lparr>p_lastReadMessage := Some (m_id l)\<rparr>) (c_participants d),
                          c_unreadCount :=
                            updateOne (\<lambda>e. u_user e = userId) (\<lambda>e. e\<lparr>u_count := 0\<rparr>)
                              (c_unreadCount d)\<rparr>
                   else d"
    have cv: "conversations (snd ?res) = map ?g (conversations s)"
      by (rule markMultipleAsRead_conversations [OF wf c part ids cid l(2)])
    have "find (\<lambda>d. c_id d = conversationId) (map ?g (conversations s))
          = map_option ?g (find (\<lambda>d. c_id d = conversationId) (conversations s))"
      by (rule find_map_keyed) simp
    with c have fc: "find (\<lambda>d. c_id d = conversationId) (conversations (snd ?res)) = Some (?g c)"
      by (simp add: cv)
    from c have idc: "c_id c = conversationId"
      by (auto simp: find_Some_iff)
    from part obtain p where p: "find (\<lambda>p. p_user p = userId) (c_participants c) = Some p"
      by (cases "find (\<lambda>p. p_user p = userId) (c_participants c)")
         (auto simp: isParticipant_def list_ex_iff find_None_iff)
    have wm: "watermarkOf (?g c) userId = Some (m_id l)"
      by (simp add: watermarkOf_def idc find_updateOne p)
    have ur: "unreadOf (?g c) userId = map_option (\<lambda>n. 0) (unreadOf c userId)"
      by (simp add: unreadOf_def idc find_updateOne option.map_comp comp_def)
    from l(1,3) cv fc wm ur show ?thesis by blast
  qed
  from empty reply usrs msgs convs show ?thesis by blast
qed

text \<open>
  C5 at concrete inputs, on the store with \<open>m0\<close> and \<open>m1\<close>: \<open>bob\<close> submits both ids
  and only \<open>m1\<close>, which he had not read, is marked; his watermark becomes \<open>m1\<close> and his
  counter 0. \<open>alice\<close> submits \<open>m1\<close>, which she has read: a successful no-op.
\<close>

theorem markMultipleAsRead_effect_witness:
  "wf_store store_two
   \<and> find (\<lambda>c. c_id c = ''c1'') (conversations store_two) = Some conv1
   \<and> isParticipant ''bob'' conv1 \<and> isParticipant ''alice'' conv1
   \<and> [''m1'', ''m0''] \<noteq> [] \<and> ''c1'' \<noteq> []
   \<and> toMark store_two [''m1'', ''m0''] ''c1'' ''bob'' = [msg1]
   \<and> fst (markMultipleAsRead 8 store_two (Some ''bob'') (Some [''m1'', ''m0'']) ''c1'')
       = ReplyBatch 200 ''Messages marked as read successfully'' (Some 1) [''m1'']
   \<and> messages (snd (markMultipleAsRead 8 store_two (Some ''bob'') (Some [''m1'', ''m0'']) ''c1''))
       = [msg0, msg1\<lparr>m_readBy := [\<lparr>rb_user = ''alice'', rb_readAt = 1\<rparr>,
                                  \<lparr>rb_user = ''bob'', rb_readAt = 8\<rparr>]\<rparr>]
   \<and> (\<exists>c'. find (\<lambda>d. c_id d = ''c1'')
               (conversations (snd (markMultipleAsRead 8 store_two (Some ''bob'')
                                      (Some [''m1'', ''m0'']) ''c1'')))
             = Some c'
           \<and> watermarkOf c' ''bob'' = Some ''m1'' \<and> unreadOf c' ''bob'' = Some 0)
   \<and> toMark store_two [''m1''] ''c1'' ''alice'' = []
   \<and> markMultipleAsRead 8 store_two (Some ''alice'') (Some [''m1'']) ''c1''
       = (ReplyBatch 200 ''No new messages to mark as read'' None [], store_two)"
proof -
  have wf: "wf_store store_two"
    by (simp add: wf_store_def ex_defs)
  have c: "find (\<lambda>c. c_id c = ''c1'') (conversations store_two) = Some conv1"
    by (simp add: ex_defs)
  have pb: "isParticipant ''bob'' conv1" and pa: "isParticipant ''alice'' conv1"
    by (simp_all add: isParticipant_def ex_defs)
  have i2: "[''m1'', ''m0''] \<noteq> []" and i1: "[''m1''] \<noteq> []" and ci: "''c1'' \<noteq> []"
    by simp_all
  have sb: "toMark store_two [''m1'', ''m0''] ''c1'' ''bob'' = [msg1]"
    by (simp add: toMark_def hasRead_def ex_defs)
  have sa: "toMark store_two [''m1''] ''c1'' ''alice'' = []"
    by (simp add: toMark_def hasRead_def ex_defs)
  have ms: "messages store_two = [msg0, msg1]"
    by (simp add: ex_defs)
  have ev: "m_id msg0 = ''m0''" "m_id msg1 = ''m1''" "m_conversation msg1 = ''c1''"
    "\<not> hasRead ''bob'' msg1" "hasRead ''bob'' msg0"
    "m_readBy msg1 = [\<lparr>rb_user = ''alice'', rb_readAt = 1\<rparr>]"
    "unreadOf conv1 ''bob'' = Some 1"
    by (simp_all add: hasRead_def unreadOf_def ex_defs)
  note tb = markMultipleAsRead_effect [where now = 8, OF wf c pb i2 ci]
  note ta = markMultipleAsRead_effect [where now = 8, OF wf c pa i1 ci]
  have ne: "toMark store_two [''m1'', ''m0''] ''c1'' ''bob'' \<noteq> []"
    by (simp add: sb)
  note tb2 = tb [THEN conjunct2, rule_format, OF ne]
  have r: "fst (markMultipleAsRead 8 store_two (Some ''bob'') (Some [''m1'', ''m0'']) ''c1'')
       = ReplyBatch 200 ''Messages marked as read successfully'' (Some 1) [''m1'']"
    using tb2 [THEN conjunct1] by (simp add: sb ev)
  have m: "messages (snd (markMultipleAsRead 8 store_two (Some ''bob'') (Some [''m1'', ''m0'']) ''c1''))
       = [msg0, msg1\<lparr>m_readBy := [\<lparr>rb_user = ''alice'', rb_readAt = 1\<rparr>,
                                  \<lparr>rb_user = ''bob'', rb_readAt = 8\<rparr>]\<rparr>]"
    using tb2 [THEN conjunct2, THEN conjunct1] by (simp add: ms ev)
  have w: "\<exists>c'. find (\<lambda>d. c_id d = ''c1'')
               (conversations (snd (markMultipleAsRead 8 store_two (Some ''bob'')
                                      (Some [''m1'', ''m0'']) ''c1'')))
             = Some c'
           \<and> watermarkOf c' ''bob'' = Some ''m1'' \<and> unreadOf c' ''bob'' = Some 0"
    using tb2 [THEN conjunct2, THEN conjunct2, THEN conjunct2] by (auto simp: sb ev)
  have e: "markMultipleAsRead 8 store_two (Some ''alice'') (Some [''m1'']) ''c1''
       = (ReplyBatch 200 ''No new messages to mark as read'' None [], store_two)"
    using ta [THEN conjunct1] sa by simp
  from wf c pb pa i2 ci sb r m w sa e show ?thesis by blast
qed

end
